theory Spec2Isabelle
  imports Complex_Main
begin

text \<open>
  A model of the task-state and recovery code of \<open>web_dashboard.py\<close>: the class
  \<open>AutomationState\<close> (paired tasks, progress ledger, state files), the task status store,
  \<open>run_automation_async\<close> with its worker, and the routes \<open>start_automation\<close>,
  \<open>recover_automation\<close> and \<open>cancel_task\<close>. Python objects that are mutated in place are
  values that the functions take and return; the files on disk and the module's global
  dictionaries are fields of one record. What the code reads from outside (the clock, the
  browser, the random generator, other threads) is an argument.
\<close>

section \<open>Strings\<close>

text \<open>
  Python strings are modelled as \<^typ>\<open>string\<close>, one \<^typ>\<open>char\<close> per code point up to
  U+00FF. \<open>str.strip()\<close> without an argument removes the characters for which
  \<open>str.isspace()\<close> holds; in that range these are the code points 9-13, 28-32, 133 and 160.
\<close>

definition isspace :: "char \<Rightarrow> bool" where
  "isspace c = (of_char c \<in> {9, 10, 11, 12, 13, 28, 29, 30, 31, 32, 133, 160 :: nat})"

definition strip :: "string \<Rightarrow> string" where
  "strip s = rev (dropWhile isspace (rev (dropWhile isspace s)))"

text \<open>\<open>str(n)\<close> for an integer: decimal digits, a minus sign for negative numbers.\<close>

definition digit_char :: "nat \<Rightarrow> char" where
  "digit_char d = ''0123456789'' ! d"

fun str_nat :: "nat \<Rightarrow> string" where
  "str_nat n = (if n < 10 then [digit_char n] else str_nat (n div 10) @ [digit_char (n mod 10)])"

declare str_nat.simps [simp del]

definition str_int :: "int \<Rightarrow> string" where
  "str_int i = (if i < 0 then CHR ''-'' # str_nat (nat (- i)) else str_nat (nat i))"

section \<open>Paired tasks (\<open>AutomationState._create_paired_tasks\<close>)\<close>

record paired_task =
  index :: int
  tweet_url :: string
  comment :: string
  original_tweet_index :: int
  original_comment_index :: int

text \<open>
  The body of the loop \<open>for i in range(max_length)\<close>: the two reads with their
  out-of-range default \<open>""\<close>, the test \<open>if tweet_url.strip()\<close> and the appended dictionary.
\<close>

definition tweet_at :: "string list \<Rightarrow> nat \<Rightarrow> string" where
  "tweet_at tweet_links i = (if i < length tweet_links then tweet_links ! i else [])"

definition comment_at :: "string list \<Rightarrow> nat \<Rightarrow> string" where
  "comment_at reply_comments i = (if i < length reply_comments then reply_comments ! i else [])"

definition paired_at :: "string list \<Rightarrow> string list \<Rightarrow> nat \<Rightarrow> paired_task" where
  "paired_at tweet_links reply_comments i =
     \<lparr>index = int i,
      tweet_url = strip (tweet_at tweet_links i),
      comment = strip (comment_at reply_comments i),
      original_tweet_index = int i,
      original_comment_index = int i\<rparr>"

definition create_paired_tasks :: "string list \<Rightarrow> string list \<Rightarrow> paired_task list" where
  "create_paired_tasks tweet_links reply_comments =
     (let max_length = max (length tweet_links) (length reply_comments)
      in map (paired_at tweet_links reply_comments)
           (filter (\<lambda>i. strip (tweet_at tweet_links i) \<noteq> []) [0..<max_length]))"

section \<open>Automation state (\<open>class AutomationState\<close>)\<close>

record automation_state =
  task_id :: string
  profile_name :: string
  tweet_links :: "string list"
  reply_comments :: "string list"
  actions :: "(string \<times> bool) list"
  min_wait :: int
  max_wait :: int
  max_retries :: int
  paired_tasks :: "paired_task list"
  processed_tasks :: "int set"
  successful_tasks :: "int set"
  failed_tasks :: "int set"
  current_index :: int
  start_time :: string
  last_updated :: string

text \<open>
  \<open>__init__\<close>. The two calls of \<open>datetime.now().isoformat()\<close> are the arguments
  \<open>now0\<close> and \<open>now1\<close>.
\<close>

definition AutomationState :: "string \<Rightarrow> string \<Rightarrow> string list \<Rightarrow> string list \<Rightarrow>
    (string \<times> bool) list \<Rightarrow> int \<Rightarrow> int \<Rightarrow> int \<Rightarrow> string \<Rightarrow> string \<Rightarrow> automation_state" where
  "AutomationState tid profile links comments acts mn mx retries now0 now1 =
     \<lparr>task_id = tid,
      profile_name = profile,
      tweet_links = links,
      reply_comments = comments,
      actions = acts,
      min_wait = mn,
      max_wait = mx,
      max_retries = retries,
      paired_tasks = create_paired_tasks links comments,
      processed_tasks = {},
      successful_tasks = {},
      failed_tasks = {},
      current_index = 0,
      start_time = now0,
      last_updated = now1\<rparr>"

text \<open>
  \<open>get_remaining_tasks\<close>: the comprehension filters on the position \<open>i\<close> that
  \<open>enumerate\<close> yields, not on the stored \<open>'index'\<close> of the task.
\<close>

definition get_remaining_tasks :: "automation_state \<Rightarrow> paired_task list" where
  "get_remaining_tasks s =
     map snd (filter (\<lambda>(i, task). int i \<notin> processed_tasks s) (enumerate 0 (paired_tasks s)))"

text \<open>
  The specification's wording of the same operation, for comparison: the items whose
  stored index is not in \<open>processed\<close>, in their original order; and its complement, the
  items whose stored index is in \<open>processed\<close>.
\<close>

definition remaining_by_index :: "int set \<Rightarrow> paired_task list \<Rightarrow> paired_task list" where
  "remaining_by_index processed work_items = filter (\<lambda>t. index t \<notin> processed) work_items"

definition processed_by_index :: "int set \<Rightarrow> paired_task list \<Rightarrow> paired_task list" where
  "processed_by_index processed work_items = filter (\<lambda>t. index t \<in> processed) work_items"

text \<open>\<open>mark_task_processed\<close>; \<open>now\<close> is the clock reading stored in \<open>last_updated\<close>.\<close>

definition mark_task_processed :: "automation_state \<Rightarrow> int \<Rightarrow> bool \<Rightarrow> string \<Rightarrow> automation_state" where
  "mark_task_processed s task_index success now =
     s\<lparr>processed_tasks := insert task_index (processed_tasks s),
       successful_tasks := (if success then insert task_index (successful_tasks s)
                            else successful_tasks s),
       failed_tasks := (if success then failed_tasks s
                        else insert task_index (failed_tasks s)),
       last_updated := now\<rparr>"

text \<open>A sequence of \<open>mark_task_processed\<close> calls, applied from left to right.\<close>

fun mark_all :: "automation_state \<Rightarrow> (int \<times> bool \<times> string) list \<Rightarrow> automation_state" where
  "mark_all s [] = s"
| "mark_all s ((task_index, success, now) # calls) =
     mark_all (mark_task_processed s task_index success now) calls"

text \<open>The indices that a sequence of calls marks with a given outcome.\<close>

definition marked_with :: "bool \<Rightarrow> (int \<times> bool \<times> string) list \<Rightarrow> int set" where
  "marked_with outcome calls =
     set (map fst (filter (\<lambda>(task_index, success, now). success = outcome) calls))"

text \<open>
  \<open>get_progress_stats\<close>. The two rates are Python floats; here they are the exact
  quotients.
\<close>

record progress_stats =
  total_tasks :: int
  processed_count :: int
  successful_count :: int
  failed_count :: int
  remaining_count :: int
  success_rate :: rat
  progress_percentage :: rat

definition get_progress_stats :: "automation_state \<Rightarrow> progress_stats" where
  "get_progress_stats s =
     (let total = int (length (paired_tasks s));
          processed = int (card (processed_tasks s));
          successful = int (card (successful_tasks s));
          failed = int (card (failed_tasks s))
      in \<lparr>total_tasks = total,
          processed_count = processed,
          successful_count = successful,
          failed_count = failed,
          remaining_count = total - processed,
          success_rate = (if total > 0 then of_int successful / of_int total * 100 else 0),
          progress_percentage = (if total > 0 then of_int processed / of_int total * 100 else 0)\<rparr>)"

section \<open>Persistence (\<open>save_state\<close>, \<open>load_state\<close>, \<open>cleanup\<close>)\<close>

text \<open>
  The dictionary \<open>state_data\<close> that \<open>save_state\<close> serialises. The three index sets are
  written as lists, \<open>list(self.processed_tasks)\<close>.
\<close>

record state_data =
  sd_task_id :: string
  sd_profile_name :: string
  sd_paired_tasks :: "paired_task list"
  sd_actions :: "(string \<times> bool) list"
  sd_min_wait :: int
  sd_max_wait :: int
  sd_max_retries :: int
  sd_processed_tasks :: "int list"
  sd_successful_tasks :: "int list"
  sd_failed_tasks :: "int list"
  sd_current_index :: int
  sd_start_time :: string
  sd_last_updated :: string
  sd_stats :: progress_stats

text \<open>
  A file either holds the JSON text of a \<open>state_data\<close> dictionary or something on which
  \<open>json.load\<close> or one of the key lookups of \<open>load_state\<close> raises. \<open>json.dump\<close> is a function
  of the dictionary, so two files are byte-for-byte equal exactly when their dictionaries
  are equal.
\<close>

datatype file_content = Json state_data | Malformed

type_synonym file_store = "string \<rightharpoonup> file_content"

definition state_file :: "string \<Rightarrow> string" where
  "state_file tid = ''automation_state_'' @ tid @ ''.json''"

text \<open>
  Python leaves the order in which \<open>list(s)\<close> enumerates a set \<open>s\<close> open; in CPython it
  depends on the order in which the elements were inserted into that set object. The
  enumeration of the object being saved is the argument \<open>list_of\<close>.
\<close>

text \<open>
  Two enumeration orders, as CPython 3 produces them for the set \<open>{3, 11}\<close>: after
  \<open>s = set(); s.add(3); s.add(11)\<close> the call \<open>list(s)\<close> gives \<open>[11, 3]\<close>, while
  \<open>list(set([11, 3]))\<close>, the set as \<open>load_state\<close> rebuilds it, gives \<open>[3, 11]\<close>. Both
  functions enumerate every finite set without repetition.
\<close>

definition list_as_filled :: "int set \<Rightarrow> int list" where
  "list_as_filled S = (if S = {3, 11} then [11, 3] else sorted_list_of_set S)"

definition list_as_rebuilt :: "int set \<Rightarrow> int list" where
  "list_as_rebuilt S = sorted_list_of_set S"

definition to_state_data :: "(int set \<Rightarrow> int list) \<Rightarrow> automation_state \<Rightarrow> state_data" where
  "to_state_data list_of s =
     \<lparr>sd_task_id = task_id s,
      sd_profile_name = profile_name s,
      sd_paired_tasks = paired_tasks s,
      sd_actions = actions s,
      sd_min_wait = min_wait s,
      sd_max_wait = max_wait s,
      sd_max_retries = max_retries s,
      sd_processed_tasks = list_of (processed_tasks s),
      sd_successful_tasks = list_of (successful_tasks s),
      sd_failed_tasks = list_of (failed_tasks s),
      sd_current_index = current_index s,
      sd_start_time = start_time s,
      sd_last_updated = last_updated s,
      sd_stats = get_progress_stats s\<rparr>"

definition save_state :: "(int set \<Rightarrow> int list) \<Rightarrow> automation_state \<Rightarrow> file_store \<Rightarrow> file_store" where
  "save_state list_of s fs = fs(state_file (task_id s) \<mapsto> Json (to_state_data list_of s))"

text \<open>
  \<open>load_state\<close>: \<open>None\<close> when the file does not exist and when reading it raises. The
  constructor is called with the lists rebuilt from the stored tasks (its clock readings
  are \<open>now0\<close> and \<open>now1\<close>), then the stored fields overwrite what it computed.
\<close>

definition load_state :: "string \<Rightarrow> file_store \<Rightarrow> string \<Rightarrow> string \<Rightarrow> automation_state option" where
  "load_state tid fs now0 now1 =
     (case fs (state_file tid) of
        None \<Rightarrow> None
      | Some Malformed \<Rightarrow> None
      | Some (Json d) \<Rightarrow>
          (let links = map tweet_url (sd_paired_tasks d);
               comments = map comment (sd_paired_tasks d);
               state = AutomationState (sd_task_id d) (sd_profile_name d) links comments
                         (sd_actions d) (sd_min_wait d) (sd_max_wait d) (sd_max_retries d) now0 now1
           in Some (state\<lparr>paired_tasks := sd_paired_tasks d,
                          processed_tasks := set (sd_processed_tasks d),
                          successful_tasks := set (sd_successful_tasks d),
                          failed_tasks := set (sd_failed_tasks d),
                          current_index := sd_current_index d,
                          start_time := sd_start_time d,
                          last_updated := sd_last_updated d\<rparr>)))"

definition cleanup :: "automation_state \<Rightarrow> file_store \<Rightarrow> file_store" where
  "cleanup s fs = fs(state_file (task_id s) := None)"

section \<open>Task status store (\<open>TaskStateManager\<close>) and the dashboard's global state\<close>

datatype status = Running | Completed | Error | Cancelled

text \<open>
  The dictionary kept per task id. The \<open>'logs'\<close> list is left out: log lines are only
  appended and never read by the code modelled here.
\<close>

record task_record =
  ttype :: string
  status :: status
  progress :: int
  total :: int
  current :: int
  task_start_time :: string
  strategy :: string
  actions_enabled :: "(string \<times> bool) list"

text \<open>
  The module's global dictionaries and the automation state files on disk. Every
  mutation of \<open>task_status\<close> is also written to \<open>task_state.json\<close>; that copy is not
  kept apart. \<open>active_threads\<close> holds the ids that have a worker thread registered.
\<close>

record system =
  state_files :: file_store
  task_status :: "string \<rightharpoonup> task_record"
  automation_states :: "string \<rightharpoonup> automation_state"
  active_threads :: "string set"

text \<open>The globals as the module initialises them, with no state file on disk.\<close>

definition initial_system :: system where
  "initial_system =
     \<lparr>state_files = Map.empty, task_status = Map.empty,
      automation_states = Map.empty, active_threads = {}\<rparr>"

definition add_task_status :: "string \<Rightarrow> task_record \<Rightarrow> system \<Rightarrow> system" where
  "add_task_status tid task_data sys = sys\<lparr>task_status := (task_status sys)(tid \<mapsto> task_data)\<rparr>"

text \<open>\<open>update_task\<close> changes a record only when the id is present.\<close>

definition update_task_status :: "string \<Rightarrow> (task_record \<Rightarrow> task_record) \<Rightarrow> system \<Rightarrow> system" where
  "update_task_status tid updates sys =
     (case task_status sys tid of
        None \<Rightarrow> sys
      | Some t \<Rightarrow> sys\<lparr>task_status := (task_status sys)(tid \<mapsto> updates t)\<rparr>)"

text \<open>\<open>current_task.get('status') == s\<close> on \<open>get_task_status().get(task_id, {})\<close>.\<close>

definition status_is :: "system \<Rightarrow> string \<Rightarrow> status \<Rightarrow> bool" where
  "status_is sys tid s = (case task_status sys tid of None \<Rightarrow> False | Some t \<Rightarrow> status t = s)"

section \<open>Starting a job (\<open>run_automation_async\<close>, \<open>start_automation\<close>)\<close>

text \<open>
  The clock readings of one call of \<open>run_automation_async\<close>: \<open>int(time.time())\<close>, the two
  timestamps of the constructor and the \<open>'start_time'\<close> of the task record.
\<close>

record clock =
  unix_seconds :: int
  state_start :: string
  state_updated :: string
  status_start :: string

definition new_task_id :: "clock \<Rightarrow> string" where
  "new_task_id clk = ''automation_'' @ str_int (unix_seconds clk)"

text \<open>
  \<open>run_automation_async\<close> up to \<open>thread.start()\<close>: the state and the task record are
  stored under the new id and the worker thread is registered. What the worker then does
  is \<open>automation_worker\<close> below.
\<close>

definition run_automation_async :: "clock \<Rightarrow> string \<Rightarrow> string list \<Rightarrow> string list \<Rightarrow>
    (string \<times> bool) list \<Rightarrow> int \<Rightarrow> int \<Rightarrow> int \<Rightarrow> system \<Rightarrow> string \<times> system" where
  "run_automation_async clk profile links comments acts mn mx retries sys =
     (let tid = new_task_id clk;
          state = AutomationState tid profile links comments acts mn mx retries
                    (state_start clk) (state_updated clk);
          initial_task_data =
            \<lparr>ttype = ''automation'', status = Running, progress = 0,
             total = int (length (paired_tasks state)), current = 0,
             task_start_time = status_start clk, strategy = ''standard'',
             actions_enabled = acts\<rparr>;
          sys1 = sys\<lparr>automation_states := (automation_states sys)(tid \<mapsto> state)\<rparr>;
          sys2 = add_task_status tid initial_task_data sys1
      in (tid, sys2\<lparr>active_threads := insert tid (active_threads sys2)\<rparr>))"

text \<open>
  The JSON body of a request; a key that is absent is \<open>None\<close> and \<open>data.get\<close> supplies
  the default.
\<close>

record request =
  req_profile_name :: "string option"
  req_tweet_links :: "string list option"
  req_reply_comments :: "string list option"
  req_actions :: "(string \<times> bool) list option"
  req_min_wait :: "int option"
  req_max_wait :: "int option"
  req_max_retries :: "int option"

datatype response =
    Started string
  | Recovered string nat
  | Failure nat string

fun get_or :: "'a option \<Rightarrow> 'a \<Rightarrow> 'a" where
  "get_or None d = d"
| "get_or (Some v) d = v"

definition start_automation :: "clock \<Rightarrow> request \<Rightarrow> system \<Rightarrow> response \<times> system" where
  "start_automation clk data sys =
     (let profile = get_or (req_profile_name data) [];
          links = get_or (req_tweet_links data) [];
          comments = get_or (req_reply_comments data) [];
          acts = get_or (req_actions data) [];
          mn = get_or (req_min_wait data) 5;
          mx = get_or (req_max_wait data) 15;
          retries = get_or (req_max_retries data) 3
      in if profile = [] then (Failure 400 ''Profile name is required'', sys)
         else if links = [] then (Failure 400 ''Tweet links are required'', sys)
         else if \<not> list_ex snd acts then (Failure 400 ''At least one action must be selected'', sys)
         else (case run_automation_async clk profile links comments acts mn mx retries sys of
                 (tid, sys') \<Rightarrow> (Started tid, sys')))"

section \<open>Recovery (\<open>recover_automation\<close>)\<close>

text \<open>
  \<open>load_now0\<close> and \<open>load_now1\<close> are the clock readings of the constructor call inside
  \<open>load_state\<close>; \<open>clk\<close> holds those of the new job.
\<close>

definition recover_automation :: "clock \<Rightarrow> string \<Rightarrow> string \<Rightarrow> string \<Rightarrow> system \<Rightarrow>
    response \<times> system" where
  "recover_automation clk load_now0 load_now1 tid sys =
     (case load_state tid (state_files sys) load_now0 load_now1 of
        None \<Rightarrow> (Failure 404 ''No saved state found for recovery'', sys)
      | Some state \<Rightarrow>
          if status_is sys tid Running then (Failure 400 ''Task is already running'', sys)
          else
            (let remaining = filter (\<lambda>(i, task). int i \<notin> processed_tasks state)
                               (enumerate 0 (paired_tasks state));
                 remaining_tweets = map (\<lambda>(i, task). tweet_url task) remaining;
                 remaining_comments = map (\<lambda>(i, task). comment task) remaining
             in if remaining_tweets = [] then (Failure 400 ''No remaining tweets to process'', sys)
                else (case run_automation_async clk (profile_name state) remaining_tweets
                             remaining_comments (actions state) (min_wait state) (max_wait state)
                             (max_retries state) sys of
                        (new_tid, sys') \<Rightarrow>
                          (Recovered new_tid (length remaining_tweets),
                           sys'\<lparr>state_files := cleanup state (state_files sys')\<rparr>))))"

section \<open>The worker (\<open>automation_worker\<close>) and cancellation (\<open>cancel_task\<close>)\<close>

text \<open>
  What the worker takes from outside the modelled code: whether \<open>setup_driver\<close> succeeds,
  the permutation \<open>random.shuffle\<close> produces, the result of \<open>_process_tweet_with_retries\<close>
  for a task, whether a \<open>cancel_task\<close> request for this job is served just before the
  status check of iteration \<open>i\<close>, the value \<open>int(((i + 1) / n) * 100)\<close> computed in
  floating point, the clock reading of the \<open>i\<close>-th mark, the enumeration order of the
  state's sets, the number the random generator draws in iteration \<open>i\<close>, and the largest
  number of seconds that \<open>time.sleep\<close> accepts on the platform. Constructing the
  automation object and writing to the state file and the log files are taken to succeed.
\<close>

record worker_env =
  setup_driver :: bool
  shuffle :: "paired_task list \<Rightarrow> paired_task list"
  process_tweet :: "paired_task \<Rightarrow> bool"
  cancel_requested :: "nat \<Rightarrow> bool"
  percent :: "nat \<Rightarrow> nat \<Rightarrow> int"
  mark_time :: "nat \<Rightarrow> string"
  list_of :: "int set \<Rightarrow> int list"
  random_draw :: "nat \<Rightarrow> nat"
  sleep_limit :: int

text \<open>
  \<open>cancel_task\<close> for a job whose state object is \<open>state\<close>: the status becomes
  \<open>cancelled\<close>, the state is saved when it is registered in \<open>automation_states\<close>, and the
  thread reference is dropped. An unknown id changes nothing (404).
\<close>

definition cancel_task :: "(int set \<Rightarrow> int list) \<Rightarrow> automation_state \<Rightarrow> string \<Rightarrow> system \<Rightarrow> system" where
  "cancel_task order state tid sys =
     (if tid \<in> dom (task_status sys) then
        (let sys1 = update_task_status tid (\<lambda>t. t\<lparr>status := Cancelled\<rparr>) sys;
             sys2 = (if tid \<in> dom (automation_states sys1)
                     then sys1\<lparr>state_files := save_state order state (state_files sys1)\<rparr>
                     else sys1)
         in sys2\<lparr>active_threads := active_threads sys2 - {tid}\<rparr>)
      else sys)"

datatype loop_exit = Exhausted | CancelObserved | Raised

text \<open>
  A cancel request that another thread serves just before the status check of
  iteration \<open>i\<close>.
\<close>

definition serve_cancel :: "worker_env \<Rightarrow> automation_state \<Rightarrow> nat \<Rightarrow> system \<Rightarrow> system" where
  "serve_cancel env state i sys =
     (if cancel_requested env i then cancel_task (list_of env) state (task_id state) sys else sys)"

text \<open>
  The body of the loop after the status check, up to the periodic save: the cursor and
  the progress are updated, the tweet is processed, the result is marked under the
  task's stored index, and every third iteration the state is saved. \<open>n\<close> is
  \<open>len(remaining_tasks)\<close>.
\<close>

definition process_one :: "worker_env \<Rightarrow> nat \<Rightarrow> nat \<Rightarrow> paired_task \<Rightarrow> system \<Rightarrow> automation_state \<Rightarrow>
    system \<times> automation_state" where
  "process_one env n i task sys state =
     (let tid = task_id state;
          state1 = state\<lparr>current_index := int i\<rparr>;
          sys1 = update_task_status tid
                   (\<lambda>t. t\<lparr>current := int i + 1, progress := percent env (i + 1) n\<rparr>) sys;
          task_index = index task;
          success = process_tweet env task;
          state2 = mark_task_processed state1 task_index success (mark_time env i);
          sys2 = (if (i + 1) mod 3 = 0
                  then sys1\<lparr>state_files := save_state (list_of env) state2 (state_files sys1)\<rparr>
                  else sys1)
      in (sys2, state2))"

text \<open>
  \<open>random.randint(a, b)\<close> in iteration \<open>i\<close>: \<open>ValueError\<close> (here \<open>None\<close>) when \<open>a > b\<close>,
  otherwise a number from \<open>a\<close> to \<open>b\<close>.
\<close>

definition randint :: "worker_env \<Rightarrow> nat \<Rightarrow> int \<Rightarrow> int \<Rightarrow> int option" where
  "randint env i a b =
     (if a > b then None else Some (a + int (random_draw env i mod nat (b - a + 1))))"

text \<open>
  The wait between two tasks, \<open>wait_time = random.randint(min_wait, max_wait)\<close> followed
  by \<open>time.sleep(wait_time)\<close>, raises when \<open>randint\<close> does, when the wait is negative
  (\<open>ValueError\<close>) and when it is more than \<open>time.sleep\<close> accepts (\<open>OverflowError\<close> or
  \<open>OSError\<close>).
\<close>

definition wait_raises :: "worker_env \<Rightarrow> nat \<Rightarrow> int \<Rightarrow> int \<Rightarrow> bool" where
  "wait_raises env i mn mx =
     (case randint env i mn mx of
        None \<Rightarrow> True
      | Some wait_time \<Rightarrow> wait_time < 0 \<or> sleep_limit env < wait_time)"

text \<open>
  The loop \<open>for i, task in enumerate(remaining_tasks)\<close>. It is left by \<open>break\<close> when the
  status is \<open>cancelled\<close>. When the task is not the last one the worker waits; an exception
  raised there leaves the loop through the \<open>except\<close> clause of the worker.
\<close>

fun process_tasks :: "worker_env \<Rightarrow> nat \<Rightarrow> nat \<Rightarrow> paired_task list \<Rightarrow> system \<Rightarrow> automation_state \<Rightarrow>
    loop_exit \<times> system \<times> automation_state" where
  "process_tasks env n i [] sys state = (Exhausted, sys, state)"
| "process_tasks env n i (task # rest) sys state =
     (let sys0 = serve_cancel env state i sys
      in if status_is sys0 (task_id state) Cancelled then (CancelObserved, sys0, state)
         else (case process_one env n i task sys0 state of
                 (sys2, state2) \<Rightarrow>
                   if i + 1 < n \<and> wait_raises env i (min_wait state2) (max_wait state2)
                   then (Raised, sys2, state2)
                   else process_tasks env n (i + 1) rest sys2 state2))"

text \<open>
  The worker for the job whose state object is \<open>state\<close>: the early return when the driver
  cannot be set up, the loop, the code after the loop, the \<open>except\<close> clause and the
  \<open>finally\<close> clause. The worker changes the state object in place; here the state is
  passed along and returned, and \<open>automation_states\<close> only records under which ids a
  state is registered.
\<close>

definition worker_finally :: "string \<Rightarrow> system \<Rightarrow> system" where
  "worker_finally tid sys =
     sys\<lparr>active_threads := active_threads sys - {tid},
         automation_states := (automation_states sys)(tid := None)\<rparr>"

definition automation_worker :: "worker_env \<Rightarrow> automation_state \<Rightarrow> system \<Rightarrow> system \<times> automation_state" where
  "automation_worker env state sys =
     (let tid = task_id state in
      if \<not> setup_driver env
      then (worker_finally tid (update_task_status tid (\<lambda>t. t\<lparr>status := Error\<rparr>) sys), state)
      else
        (let remaining_tasks = shuffle env (get_remaining_tasks state)
         in case process_tasks env (length remaining_tasks) 0 remaining_tasks sys state of
              (Raised, sys1, state1) \<Rightarrow>
                (let sys2 = update_task_status tid (\<lambda>t. t\<lparr>status := Error\<rparr>) sys1
                 in (worker_finally tid
                       (sys2\<lparr>state_files := save_state (list_of env) state1 (state_files sys2)\<rparr>),
                     state1))
            | (ex, sys1, state1) \<Rightarrow>
                (let sys2 = sys1\<lparr>state_files := save_state (list_of env) state1 (state_files sys1)\<rparr>;
                     sys3 = update_task_status tid (\<lambda>t. t\<lparr>status := Completed\<rparr>) sys2
                 in (worker_finally tid sys3, state1))))"

text \<open>
  An environment for the examples: the driver starts, \<open>shuffle\<close> leaves the order as it
  is, every tweet is processed successfully, a cancel request is served before the
  status check of each iteration listed in \<open>cancels\<close>, the random generator always draws
  0, and \<open>time.sleep\<close> accepts waits of up to one day.
\<close>

definition scripted_env :: "nat list \<Rightarrow> worker_env" where
  "scripted_env cancels =
     \<lparr>setup_driver = True,
      shuffle = (\<lambda>tasks. tasks),
      process_tweet = (\<lambda>task. True),
      cancel_requested = (\<lambda>i. i \<in> set cancels),
      percent = (\<lambda>i n. int (i * 100 div n)),
      mark_time = (\<lambda>i. ''now''),
      list_of = list_as_rebuilt,
      random_draw = (\<lambda>i. 0),
      sleep_limit = 86400\<rparr>"

section \<open>Pairing\<close>

lemma create_paired_tasks_index:
  "map index (create_paired_tasks ts cs) =
     map int (filter (\<lambda>i. strip (tweet_at ts i) \<noteq> []) [0..<max (length ts) (length cs)])"
  by (simp add: create_paired_tasks_def paired_at_def comp_def)

lemma create_paired_tasks_set:
  "set (create_paired_tasks ts cs) =
     paired_at ts cs ` {i. i < max (length ts) (length cs) \<and> strip (tweet_at ts i) \<noteq> []}"
  by (auto simp: create_paired_tasks_def)

lemma strip_Nil: "strip [] = []"
  by (simp add: strip_def)

lemma index_sorted: "sorted_wrt (<) (map index (create_paired_tasks ts cs))"
  unfolding create_paired_tasks_index
  by (simp add: sorted_wrt_map sorted_wrt_filter)

lemma index_distinct: "distinct (map index (create_paired_tasks ts cs))"
  unfolding create_paired_tasks_index
  by (simp add: distinct_map inj_on_def)

lemma item_fields:
  assumes "t \<in> set (create_paired_tasks ts cs)"
  shows "0 \<le> index t" and "index t < int (max (length ts) (length cs))"
    and "tweet_url t = strip (tweet_at ts (nat (index t)))"
    and "comment t = strip (comment_at cs (nat (index t)))"
    and "tweet_url t \<noteq> []"
  using assms by (auto simp: create_paired_tasks_set paired_at_def)

lemma item_emitted_iff:
  "(\<exists>t \<in> set (create_paired_tasks ts cs). index t = int i) \<longleftrightarrow>
     (i < length ts \<and> strip (ts ! i) \<noteq> [])"
proof
  assume "\<exists>t \<in> set (create_paired_tasks ts cs). index t = int i"
  then have "strip (tweet_at ts i) \<noteq> []"
    by (auto simp: create_paired_tasks_set paired_at_def)
  then show "i < length ts \<and> strip (ts ! i) \<noteq> []"
    by (cases "i < length ts") (simp_all add: tweet_at_def strip_Nil)
next
  assume h: "i < length ts \<and> strip (ts ! i) \<noteq> []"
  then have "paired_at ts cs i \<in> set (create_paired_tasks ts cs)"
    by (auto simp: create_paired_tasks_set tweet_at_def)
  moreover have "index (paired_at ts cs i) = int i"
    by (simp add: paired_at_def)
  ultimately show "\<exists>t \<in> set (create_paired_tasks ts cs). index t = int i"
    by blast
qed

text \<open>
  Trimming twice changes nothing, so the tasks that \<open>_create_paired_tasks\<close> builds hold
  trimmed, non-empty targets and trimmed annotations.
\<close>

lemma dropWhile_fixed: "xs = [] \<or> \<not> P (hd xs) \<Longrightarrow> dropWhile P xs = xs"
  by (cases xs) auto

lemma dropWhile_head: "dropWhile P xs = [] \<or> \<not> P (hd (dropWhile P xs))"
  by (induction xs) auto

lemma hd_rev_dropWhile_rev:
  "rev (dropWhile P (rev xs)) \<noteq> [] \<Longrightarrow> hd (rev (dropWhile P (rev xs))) = hd xs"
proof (induction xs rule: rev_induct)
  case Nil
  then show ?case by simp
next
  case (snoc x xs)
  show ?case
  proof (cases "P x")
    case True
    with snoc have "rev (dropWhile P (rev xs)) \<noteq> []" by simp
    with snoc.IH True have "hd (rev (dropWhile P (rev xs))) = hd xs" by simp
    moreover from \<open>rev (dropWhile P (rev xs)) \<noteq> []\<close> have "xs \<noteq> []" by auto
    ultimately show ?thesis using True by simp
  next
    case False
    then show ?thesis by simp
  qed
qed

lemma strip_idem: "strip (strip s) = strip s"
proof -
  let ?xs = "dropWhile isspace s"
  let ?ys = "rev (dropWhile isspace (rev ?xs))"
  have head: "?ys = [] \<or> \<not> isspace (hd ?ys)"
  proof (cases "?ys = []")
    case True
    then show ?thesis by simp
  next
    case False
    then have "hd ?ys = hd ?xs" by (rule hd_rev_dropWhile_rev)
    moreover have "?xs \<noteq> []"
    proof
      assume "?xs = []"
      then have "?ys = []" by (simp only: rev.simps dropWhile.simps)
      with False show False by contradiction
    qed
    ultimately show ?thesis using dropWhile_head [of isspace s] by metis
  qed
  then have front: "dropWhile isspace ?ys = ?ys" by (rule dropWhile_fixed)
  have "dropWhile isspace (rev ?ys) = rev ?ys"
    using dropWhile_head [of isspace "rev ?xs"] by (intro dropWhile_fixed) simp
  with front show ?thesis
    unfolding strip_def by simp
qed

lemma create_paired_tasks_trimmed:
  "\<forall>t \<in> set (create_paired_tasks links comments).
     strip (tweet_url t) = tweet_url t \<and> tweet_url t \<noteq> [] \<and> strip (comment t) = comment t"
  by (auto simp: create_paired_tasks_set paired_at_def strip_idem)

text \<open>
  C6. For all input lists, the tasks built by \<open>_create_paired_tasks\<close> have strictly
  increasing, pairwise different indices below \<open>max(len(targets), len(annotations))\<close>;
  each task holds the trimmed target and the trimmed annotation of its position (the empty
  string where the annotation list is too short); a task exists for position \<open>i\<close> exactly
  when the trimmed target at \<open>i\<close> is not empty; and empty inputs give no task.
\<close>

theorem create_paired_tasks_pairing:
  "sorted_wrt (<) (map index (create_paired_tasks ts cs)) \<and>
   distinct (map index (create_paired_tasks ts cs)) \<and>
   (\<forall>t \<in> set (create_paired_tasks ts cs).
      0 \<le> index t \<and> index t < int (max (length ts) (length cs)) \<and>
      tweet_url t = strip (tweet_at ts (nat (index t))) \<and>
      comment t = strip (comment_at cs (nat (index t)))) \<and>
   (\<forall>i. (\<exists>t \<in> set (create_paired_tasks ts cs). index t = int i) \<longleftrightarrow>
      (i < length ts \<and> strip (ts ! i) \<noteq> [])) \<and>
   create_paired_tasks [] [] = []"
proof (intro conjI ballI allI)
  show "sorted_wrt (<) (map index (create_paired_tasks ts cs))"
    by (rule index_sorted)
  show "distinct (map index (create_paired_tasks ts cs))"
    by (rule index_distinct)
  show "create_paired_tasks [] [] = []"
    by (simp add: create_paired_tasks_def)
next
  fix i
  show "(\<exists>t \<in> set (create_paired_tasks ts cs). index t = int i) \<longleftrightarrow>
      (i < length ts \<and> strip (ts ! i) \<noteq> [])"
    by (rule item_emitted_iff)
next
  fix t assume t: "t \<in> set (create_paired_tasks ts cs)"
  show "0 \<le> index t" by (rule item_fields(1)[OF t])
  show "index t < int (max (length ts) (length cs))" by (rule item_fields(2)[OF t])
  show "tweet_url t = strip (tweet_at ts (nat (index t)))" by (rule item_fields(3)[OF t])
  show "comment t = strip (comment_at cs (nat (index t)))" by (rule item_fields(4)[OF t])
qed

lemma example_gap_tasks:
  "create_paired_tasks ['''', ''b''] [''x'', ''y''] =
     [\<lparr>index = 1, tweet_url = ''b'', comment = ''y'',
       original_tweet_index = 1, original_comment_index = 1\<rparr>]"
  by code_simp

theorem create_paired_tasks_pairing_witness:
  "create_paired_tasks ['''', ''b''] [''x'', ''y''] =
     [\<lparr>index = 1, tweet_url = ''b'', comment = ''y'',
       original_tweet_index = 1, original_comment_index = 1\<rparr>] \<and>
   sorted_wrt (<) (map index (create_paired_tasks ['''', ''b''] [''x'', ''y''])) \<and>
   (\<exists>t \<in> set (create_paired_tasks ['''', ''b''] [''x'', ''y'']). index t = int 1) \<and>
   \<not> (\<exists>t \<in> set (create_paired_tasks ['''', ''b''] [''x'', ''y'']). index t = int 0) \<and>
   strip (['''', ''b''] ! 0) = [] \<and> strip (['''', ''b''] ! 1) = ''b''"
  using create_paired_tasks_pairing [of "['''', ''b'']" "[''x'', ''y'']"] example_gap_tasks
  by (simp add: strip_def isspace_def)

section \<open>The progress ledger\<close>

lemma marked_with_Nil: "marked_with b [] = {}"
  by (simp add: marked_with_def)

lemma marked_with_Cons:
  "marked_with b ((i, success, now) # calls) =
     (if success = b then insert i (marked_with b calls) else marked_with b calls)"
  by (simp add: marked_with_def)

lemma marked_with_take: "marked_with b (take k calls) \<subseteq> marked_with b calls"
  unfolding marked_with_def
  by (auto dest: in_set_takeD)

lemma mark_all_successful:
  "successful_tasks (mark_all s calls) = successful_tasks s \<union> marked_with True calls"
  by (induction s calls rule: mark_all.induct)
    (auto simp: mark_task_processed_def marked_with_Cons marked_with_Nil)

lemma mark_all_failed:
  "failed_tasks (mark_all s calls) = failed_tasks s \<union> marked_with False calls"
  by (induction s calls rule: mark_all.induct)
    (auto simp: mark_task_processed_def marked_with_Cons marked_with_Nil)

lemma mark_all_processed:
  "processed_tasks (mark_all s calls) =
     processed_tasks s \<union> marked_with True calls \<union> marked_with False calls"
  by (induction s calls rule: mark_all.induct)
    (auto simp: mark_task_processed_def marked_with_Cons marked_with_Nil)

text \<open>
  C2, as stated, fails: \<open>mark_task_processed\<close> only adds. Marking index 0 as successful and
  then as failed leaves 0 in \<open>successful_tasks\<close>, and the two sets overlap.
\<close>

theorem mark_opposite_outcome_counterexample:
  "0 \<in> successful_tasks
         (mark_all (AutomationState ''job'' ''p'' [''a''] [''x''] [(''like'', True)] 5 15 3 ''t0'' ''t0'')
            [(0, True, ''t1''), (0, False, ''t2'')]) \<and>
   successful_tasks
     (mark_all (AutomationState ''job'' ''p'' [''a''] [''x''] [(''like'', True)] 5 15 3 ''t0'' ''t0'')
        [(0, True, ''t1''), (0, False, ''t2'')]) \<inter>
   failed_tasks
     (mark_all (AutomationState ''job'' ''p'' [''a''] [''x''] [(''like'', True)] 5 15 3 ''t0'' ''t0'')
        [(0, True, ''t1''), (0, False, ''t2'')]) \<noteq> {}"
  by (simp add: AutomationState_def mark_task_processed_def)

text \<open>
  C2, amended. For every ledger and every sequence of \<open>mark_task_processed\<close> calls:
  \<open>processed_tasks\<close> only grows; \<open>successful_tasks\<close> gains exactly the indices marked as
  successful and \<open>failed_tasks\<close> exactly those marked as failed, and nothing is removed from
  either (an index marked with both outcomes is in both); and when the two sets are
  disjoint at the start and no index gets an outcome opposite to one it has, they are
  disjoint after every call.
\<close>

theorem mark_all_ledger:
  "processed_tasks s \<subseteq> processed_tasks (mark_all s calls) \<and>
   successful_tasks (mark_all s calls) = successful_tasks s \<union> marked_with True calls \<and>
   failed_tasks (mark_all s calls) = failed_tasks s \<union> marked_with False calls \<and>
   (successful_tasks s \<inter> failed_tasks s = {} \<and>
    (successful_tasks s \<union> marked_with True calls) \<inter> marked_with False calls = {} \<and>
    marked_with True calls \<inter> failed_tasks s = {} \<longrightarrow>
    (\<forall>k \<le> length calls.
       successful_tasks (mark_all s (take k calls)) \<inter>
       failed_tasks (mark_all s (take k calls)) = {}))"
proof (intro conjI impI allI)
  show "processed_tasks s \<subseteq> processed_tasks (mark_all s calls)"
    by (auto simp: mark_all_processed)
  show "successful_tasks (mark_all s calls) = successful_tasks s \<union> marked_with True calls"
    by (rule mark_all_successful)
  show "failed_tasks (mark_all s calls) = failed_tasks s \<union> marked_with False calls"
    by (rule mark_all_failed)
next
  fix k
  assume h: "successful_tasks s \<inter> failed_tasks s = {} \<and>
    (successful_tasks s \<union> marked_with True calls) \<inter> marked_with False calls = {} \<and>
    marked_with True calls \<inter> failed_tasks s = {}"
  have "marked_with True (take k calls) \<subseteq> marked_with True calls"
    and "marked_with False (take k calls) \<subseteq> marked_with False calls"
    by (rule marked_with_take)+
  with h show "successful_tasks (mark_all s (take k calls)) \<inter>
       failed_tasks (mark_all s (take k calls)) = {}"
    unfolding mark_all_successful mark_all_failed by blast
qed

theorem mark_all_ledger_witness:
  "successful_tasks
     (mark_all (AutomationState ''job'' ''p'' [''a'', ''b''] [''x'', ''y''] [(''like'', True)] 5 15 3 ''t0'' ''t0'')
        [(0, True, ''t1''), (1, False, ''t2'')]) = {0} \<and>
   failed_tasks
     (mark_all (AutomationState ''job'' ''p'' [''a'', ''b''] [''x'', ''y''] [(''like'', True)] 5 15 3 ''t0'' ''t0'')
        [(0, True, ''t1''), (1, False, ''t2'')]) = {1} \<and>
   successful_tasks
     (mark_all (AutomationState ''job'' ''p'' [''a'', ''b''] [''x'', ''y''] [(''like'', True)] 5 15 3 ''t0'' ''t0'')
        (take 2 [(0, True, ''t1''), (1, False, ''t2'')])) \<inter>
   failed_tasks
     (mark_all (AutomationState ''job'' ''p'' [''a'', ''b''] [''x'', ''y''] [(''like'', True)] 5 15 3 ''t0'' ''t0'')
        (take 2 [(0, True, ''t1''), (1, False, ''t2'')])) = {}"
proof -
  let ?s = "AutomationState ''job'' ''p'' [''a'', ''b''] [''x'', ''y''] [(''like'', True)] 5 15 3 ''t0'' ''t0''"
  let ?calls = "[(0, True, ''t1''), (1, False, ''t2'')] :: (int \<times> bool \<times> string) list"
  note t = mark_all_ledger [of ?s ?calls]
  have pre: "successful_tasks ?s \<inter> failed_tasks ?s = {} \<and>
    (successful_tasks ?s \<union> marked_with True ?calls) \<inter> marked_with False ?calls = {} \<and>
    marked_with True ?calls \<inter> failed_tasks ?s = {}"
    by (simp add: AutomationState_def marked_with_def)
  from t pre have every: "\<forall>k \<le> length ?calls.
       successful_tasks (mark_all ?s (take k ?calls)) \<inter>
       failed_tasks (mark_all ?s (take k ?calls)) = {}"
    by blast
  have "successful_tasks (mark_all ?s (take 2 ?calls)) \<inter>
       failed_tasks (mark_all ?s (take 2 ?calls)) = {}"
    by (rule every [rule_format]) simp
  moreover from t have "successful_tasks (mark_all ?s ?calls) = {0}"
    and "failed_tasks (mark_all ?s ?calls) = {1}"
    by (simp_all add: AutomationState_def marked_with_def)
  ultimately show ?thesis by blast
qed

section \<open>Remaining tasks\<close>

text \<open>
  Filtering on positions and filtering on stored indices agree on a list in which every
  task's index is its position (shifted by the start of the enumeration).
\<close>

lemma enumerate_filter_positions:
  "\<forall>i < length xs. index (xs ! i) = int (n + i) \<Longrightarrow>
   map snd (filter (\<lambda>(i, task). int i \<notin> P) (enumerate n xs)) = filter (\<lambda>t. index t \<notin> P) xs"
proof (induction xs arbitrary: n)
  case Nil
  show ?case by simp
next
  case (Cons x xs)
  from Cons.prems have first: "index x = int n" by auto
  from Cons.prems have "\<forall>i < length xs. index (xs ! i) = int (Suc n + i)" by auto
  from Cons.IH [OF this] first show ?case by simp
qed

lemma get_remaining_tasks_no_gap:
  "\<forall>i < length (paired_tasks s). index (paired_tasks s ! i) = int i \<Longrightarrow>
   get_remaining_tasks s = remaining_by_index (processed_tasks s) (paired_tasks s)"
  unfolding get_remaining_tasks_def remaining_by_index_def
  by (rule enumerate_filter_positions) simp

text \<open>
  C1 at a list with an index gap. The targets \<open>["", "b", "c"]\<close> give the tasks with
  indices 1 and 2. After the worker has marked the task with index 1 (target \<open>b\<close>),
  \<open>get_remaining_tasks\<close> returns that same task again, since its position 0 is not in
  \<open>processed_tasks\<close>, and drops the task with index 2, whose position is 1. The items whose
  index is not in \<open>processed_tasks\<close> are the single task with index 2, and the task with
  index 1 is the one whose index is in \<open>processed_tasks\<close>: what \<open>get_remaining_tasks\<close>
  returns overlaps the processed items and misses the unprocessed one.
\<close>

theorem get_remaining_tasks_gap_example:
  "map index (paired_tasks
     (mark_task_processed
        (AutomationState ''job'' ''p'' ['''', ''b'', ''c''] [''x'', ''y'', ''z'']
           [(''like'', True)] 5 15 3 ''t0'' ''t0'') 1 True ''t1'')) = [1, 2] \<and>
   processed_tasks
     (mark_task_processed
        (AutomationState ''job'' ''p'' ['''', ''b'', ''c''] [''x'', ''y'', ''z'']
           [(''like'', True)] 5 15 3 ''t0'' ''t0'') 1 True ''t1'') = {1} \<and>
   map index (get_remaining_tasks
     (mark_task_processed
        (AutomationState ''job'' ''p'' ['''', ''b'', ''c''] [''x'', ''y'', ''z'']
           [(''like'', True)] 5 15 3 ''t0'' ''t0'') 1 True ''t1'')) = [1] \<and>
   map index (remaining_by_index {1} (paired_tasks
     (mark_task_processed
        (AutomationState ''job'' ''p'' ['''', ''b'', ''c''] [''x'', ''y'', ''z'']
           [(''like'', True)] 5 15 3 ''t0'' ''t0'') 1 True ''t1''))) = [2] \<and>
   map index (processed_by_index {1} (paired_tasks
     (mark_task_processed
        (AutomationState ''job'' ''p'' ['''', ''b'', ''c''] [''x'', ''y'', ''z'']
           [(''like'', True)] 5 15 3 ''t0'' ''t0'') 1 True ''t1''))) = [1]"
  by code_simp

section \<open>Saving and loading\<close>

lemma save_state_lookup:
  "save_state order s fs (state_file (task_id s)) = Some (Json (to_state_data order s))"
  by (simp add: save_state_def)

lemma load_state_save_state:
  assumes "set (order (processed_tasks s)) = processed_tasks s"
    and "set (order (successful_tasks s)) = successful_tasks s"
    and "set (order (failed_tasks s)) = failed_tasks s"
  shows "load_state (task_id s) (save_state order s fs) now0 now1 =
     Some (s\<lparr>tweet_links := map tweet_url (paired_tasks s),
             reply_comments := map comment (paired_tasks s)\<rparr>)"
  using assms
  by (simp add: load_state_def save_state_def to_state_data_def AutomationState_def)

lemma to_state_data_reloaded:
  "to_state_data order' (s\<lparr>tweet_links := l, reply_comments := c\<rparr>) =
     (to_state_data order s)\<lparr>sd_processed_tasks := order' (processed_tasks s),
        sd_successful_tasks := order' (successful_tasks s),
        sd_failed_tasks := order' (failed_tasks s)\<rparr>"
  by (simp add: to_state_data_def get_progress_stats_def)

text \<open>
  C4, as stated, fails in its last part. A job with twelve targets whose tasks 3 and 11
  were marked in that order is saved with \<open>processed_tasks\<close> written as \<open>[11, 3]\<close>; the
  state loaded from that file holds the set rebuilt from \<open>[11, 3]\<close>, which enumerates as
  \<open>[3, 11]\<close>, so saving the loaded state writes a file that differs from the first one.
\<close>

theorem reserialize_order_counterexample:
  "load_state ''job''
     (save_state list_as_filled
        (mark_all (AutomationState ''job'' ''p'' (replicate 12 ''u'') [] [(''like'', True)] 5 15 3 ''t0'' ''t0'')
           [(3, True, ''t1''), (11, True, ''t2'')]) Map.empty) ''t3'' ''t4'' \<noteq> None \<and>
   save_state list_as_rebuilt
     (the (load_state ''job''
        (save_state list_as_filled
           (mark_all (AutomationState ''job'' ''p'' (replicate 12 ''u'') [] [(''like'', True)] 5 15 3 ''t0'' ''t0'')
              [(3, True, ''t1''), (11, True, ''t2'')]) Map.empty) ''t3'' ''t4''))
     (save_state list_as_filled
        (mark_all (AutomationState ''job'' ''p'' (replicate 12 ''u'') [] [(''like'', True)] 5 15 3 ''t0'' ''t0'')
           [(3, True, ''t1''), (11, True, ''t2'')]) Map.empty) (state_file ''job'')
   \<noteq> save_state list_as_filled
        (mark_all (AutomationState ''job'' ''p'' (replicate 12 ''u'') [] [(''like'', True)] 5 15 3 ''t0'' ''t0'')
           [(3, True, ''t1''), (11, True, ''t2'')]) Map.empty (state_file ''job'')"
proof -
  let ?J = "mark_all (AutomationState ''job'' ''p'' (replicate 12 ''u'') [] [(''like'', True)] 5 15 3 ''t0'' ''t0'')
           [(3, True, ''t1''), (11, True, ''t2'')]"
  let ?J' = "?J\<lparr>tweet_links := map tweet_url (paired_tasks ?J),
          reply_comments := map comment (paired_tasks ?J)\<rparr>"
  let ?fs = "save_state list_as_filled ?J Map.empty"
  have tid: "task_id ?J = ''job''"
    by (simp add: AutomationState_def mark_task_processed_def)
  have sets: "processed_tasks ?J = {3, 11}" "successful_tasks ?J = {3, 11}" "failed_tasks ?J = {}"
    by (auto simp: AutomationState_def mark_task_processed_def)
  have enum: "set (list_as_filled (processed_tasks ?J)) = processed_tasks ?J"
    "set (list_as_filled (successful_tasks ?J)) = successful_tasks ?J"
    "set (list_as_filled (failed_tasks ?J)) = failed_tasks ?J"
    unfolding sets by (auto simp: list_as_filled_def)
  note loaded = load_state_save_state [OF enum, of Map.empty "''t3''" "''t4''", unfolded tid]
  have first: "sd_processed_tasks (to_state_data list_as_filled ?J) = [11, 3]"
    unfolding to_state_data_def sets by (simp add: list_as_filled_def)
  have second: "sd_processed_tasks (to_state_data list_as_rebuilt ?J') = [3, 11]"
    unfolding to_state_data_reloaded [of _ _ _ _ list_as_filled] sets
    by (simp add: list_as_rebuilt_def)
  from first second
  have differ: "to_state_data list_as_rebuilt ?J' \<noteq> to_state_data list_as_filled ?J"
    by auto
  have first_file: "?fs (state_file ''job'') = Some (Json (to_state_data list_as_filled ?J))"
    using save_state_lookup [of list_as_filled ?J Map.empty] unfolding tid .
  have tid': "task_id ?J' = ''job''"
    using tid by (simp del: mark_all.simps)
  have second_file: "save_state list_as_rebuilt ?J' ?fs (state_file ''job'') =
      Some (Json (to_state_data list_as_rebuilt ?J'))"
    using save_state_lookup [of list_as_rebuilt ?J' ?fs] unfolding tid' .
  show ?thesis
    unfolding loaded option.sel first_file second_file using differ
    by (simp del: mark_all.simps)
qed

text \<open>
  C4, amended. For every job whose three index sets are enumerated by \<open>order\<close> when it is
  saved, loading its id afterwards succeeds and gives a state equal to the saved one in
  every field except the two raw input lists, which are the targets and annotations of the
  stored tasks: task id, profile, tasks (as stored), actions, timing, the three index
  sets, cursor and timestamps are the saved ones. Saving the loaded state, with whatever
  order \<open>order'\<close> its rebuilt sets enumerate in, writes to the same file a dictionary equal
  to the first one except that the three index lists are in the order \<open>order'\<close>; when
  \<open>order'\<close> enumerates the three sets, the lists hold the same indices as before.
\<close>

theorem save_load_roundtrip:
  assumes "set (order (processed_tasks s)) = processed_tasks s"
    and "set (order (successful_tasks s)) = successful_tasks s"
    and "set (order (failed_tasks s)) = failed_tasks s"
  shows "\<exists>s'. load_state (task_id s) (save_state order s fs) now0 now1 = Some s' \<and>
     s' = s\<lparr>tweet_links := map tweet_url (paired_tasks s),
            reply_comments := map comment (paired_tasks s)\<rparr> \<and>
     state_file (task_id s') = state_file (task_id s) \<and>
     to_state_data order' s' =
       (to_state_data order s)\<lparr>sd_processed_tasks := order' (processed_tasks s),
          sd_successful_tasks := order' (successful_tasks s),
          sd_failed_tasks := order' (failed_tasks s)\<rparr> \<and>
     (set (order' (processed_tasks s)) = processed_tasks s \<and>
      set (order' (successful_tasks s)) = successful_tasks s \<and>
      set (order' (failed_tasks s)) = failed_tasks s \<longrightarrow>
        set (sd_processed_tasks (to_state_data order' s')) =
          set (sd_processed_tasks (to_state_data order s)) \<and>
        set (sd_successful_tasks (to_state_data order' s')) =
          set (sd_successful_tasks (to_state_data order s)) \<and>
        set (sd_failed_tasks (to_state_data order' s')) =
          set (sd_failed_tasks (to_state_data order s)))"
proof -
  let ?s' = "s\<lparr>tweet_links := map tweet_url (paired_tasks s),
            reply_comments := map comment (paired_tasks s)\<rparr>"
  have "load_state (task_id s) (save_state order s fs) now0 now1 = Some ?s'"
    by (rule load_state_save_state [OF assms])
  moreover have "state_file (task_id ?s') = state_file (task_id s)"
    by simp
  moreover have "to_state_data order' ?s' =
       (to_state_data order s)\<lparr>sd_processed_tasks := order' (processed_tasks s),
          sd_successful_tasks := order' (successful_tasks s),
          sd_failed_tasks := order' (failed_tasks s)\<rparr>"
    by (rule to_state_data_reloaded)
  moreover have "set (order' (processed_tasks s)) = processed_tasks s \<and>
      set (order' (successful_tasks s)) = successful_tasks s \<and>
      set (order' (failed_tasks s)) = failed_tasks s \<longrightarrow>
        set (sd_processed_tasks (to_state_data order' ?s')) =
          set (sd_processed_tasks (to_state_data order s)) \<and>
        set (sd_successful_tasks (to_state_data order' ?s')) =
          set (sd_successful_tasks (to_state_data order s)) \<and>
        set (sd_failed_tasks (to_state_data order' ?s')) =
          set (sd_failed_tasks (to_state_data order s))"
    using assms by (simp add: to_state_data_def)
  ultimately show ?thesis by blast
qed

theorem save_load_roundtrip_witness:
  "processed_tasks (the (load_state ''job''
     (save_state list_as_filled
        (mark_all (AutomationState ''job'' ''p'' (replicate 12 ''u'') [] [(''like'', True)] 5 15 3 ''t0'' ''t0'')
           [(3, True, ''t1''), (11, True, ''t2'')]) Map.empty) ''t3'' ''t4'')) = {3, 11} \<and>
   length (paired_tasks (the (load_state ''job''
     (save_state list_as_filled
        (mark_all (AutomationState ''job'' ''p'' (replicate 12 ''u'') [] [(''like'', True)] 5 15 3 ''t0'' ''t0'')
           [(3, True, ''t1''), (11, True, ''t2'')]) Map.empty) ''t3'' ''t4''))) = 12 \<and>
   start_time (the (load_state ''job''
     (save_state list_as_filled
        (mark_all (AutomationState ''job'' ''p'' (replicate 12 ''u'') [] [(''like'', True)] 5 15 3 ''t0'' ''t0'')
           [(3, True, ''t1''), (11, True, ''t2'')]) Map.empty) ''t3'' ''t4'')) = ''t0''"
proof -
  let ?J = "mark_all (AutomationState ''job'' ''p'' (replicate 12 ''u'') [] [(''like'', True)] 5 15 3 ''t0'' ''t0'')
           [(3, True, ''t1''), (11, True, ''t2'')]"
  have tid: "task_id ?J = ''job''"
    by (simp add: AutomationState_def mark_task_processed_def)
  have sets: "processed_tasks ?J = {3, 11}" "successful_tasks ?J = {3, 11}" "failed_tasks ?J = {}"
    by (auto simp: AutomationState_def mark_task_processed_def)
  have enum: "set (list_as_filled (processed_tasks ?J)) = processed_tasks ?J"
    "set (list_as_filled (successful_tasks ?J)) = successful_tasks ?J"
    "set (list_as_filled (failed_tasks ?J)) = failed_tasks ?J"
    unfolding sets by (auto simp: list_as_filled_def)
  have tasks: "length (paired_tasks ?J) = 12"
    by code_simp
  have start: "start_time ?J = ''t0''"
    by (simp add: AutomationState_def mark_task_processed_def)
  from save_load_roundtrip [OF enum, of Map.empty "''t3''" "''t4''" list_as_rebuilt, unfolded tid]
  obtain s' where loaded: "load_state ''job'' (save_state list_as_filled ?J Map.empty) ''t3'' ''t4'' = Some s'"
    and same: "s' = ?J\<lparr>tweet_links := map tweet_url (paired_tasks ?J),
            reply_comments := map comment (paired_tasks ?J)\<rparr>"
    by blast
  show ?thesis
    unfolding loaded option.sel same using sets(1) tasks start
    by (simp del: mark_all.simps)
qed

section \<open>Starting jobs\<close>

lemma run_automation_async_eq:
  "run_automation_async clk profile links comments acts mn mx retries sys =
     (new_task_id clk,
      sys\<lparr>automation_states := (automation_states sys)(new_task_id clk \<mapsto>
             AutomationState (new_task_id clk) profile links comments acts mn mx retries
               (state_start clk) (state_updated clk)),
          task_status := (task_status sys)(new_task_id clk \<mapsto>
             \<lparr>ttype = ''automation'', status = Running, progress = 0,
              total = int (length (create_paired_tasks links comments)), current = 0,
              task_start_time = status_start clk, strategy = ''standard'',
              actions_enabled = acts\<rparr>),
          active_threads := insert (new_task_id clk) (active_threads sys)\<rparr>)"
  by (simp add: run_automation_async_def Let_def add_task_status_def AutomationState_def)

lemma new_task_id_100:
  "new_task_id \<lparr>unix_seconds = 100, state_start = a, state_updated = b, status_start = c\<rparr> =
     ''automation_100''"
  by (simp add: new_task_id_def str_int_def str_nat.simps digit_char_def)

text \<open>
  C10. The id that \<open>run_automation_async\<close> returns is \<open>"automation_"\<close> followed by the
  whole-second clock value. When two starts read the same second, the second start returns
  the same id, its state and its task record replace those of the first under that id (no
  new key appears in either dictionary), and both states are saved to the file of that id:
  after the first save the file holds the snapshot of the first job, and after the second
  save it holds the snapshot of the second job and nothing of the first is left (the
  files are as if only the second state had been saved).
\<close>

theorem same_second_same_job_id:
  "unix_seconds clk1 = unix_seconds clk2 \<longrightarrow>
   (let (id1, sys1) = run_automation_async clk1 p1 l1 c1 a1 mn1 mx1 rt1 sys;
        (id2, sys2) = run_automation_async clk2 p2 l2 c2 a2 mn2 mx2 rt2 sys1;
        st1 = AutomationState id1 p1 l1 c1 a1 mn1 mx1 rt1 (state_start clk1) (state_updated clk1);
        st2 = AutomationState id2 p2 l2 c2 a2 mn2 mx2 rt2 (state_start clk2) (state_updated clk2)
    in id1 = ''automation_'' @ str_int (unix_seconds clk1) \<and>
       id2 = id1 \<and>
       automation_states sys1 id1 = Some st1 \<and>
       automation_states sys2 id1 = Some st2 \<and>
       task_status sys2 id1 =
         Some \<lparr>ttype = ''automation'', status = Running, progress = 0,
               total = int (length (paired_tasks st2)), current = 0,
               task_start_time = status_start clk2, strategy = ''standard'',
               actions_enabled = a2\<rparr> \<and>
       dom (task_status sys2) = dom (task_status sys1) \<and>
       dom (automation_states sys2) = dom (automation_states sys1) \<and>
       save_state o2 st2 (save_state o1 st1 fs) = save_state o2 st2 fs \<and>
       save_state o1 st1 fs (state_file id1) = Some (Json (to_state_data o1 st1)) \<and>
       save_state o2 st2 (save_state o1 st1 fs) (state_file id1) =
         Some (Json (to_state_data o2 st2)))"
proof
  assume "unix_seconds clk1 = unix_seconds clk2"
  then have same: "new_task_id clk2 = new_task_id clk1"
    by (simp add: new_task_id_def)
  show "(let (id1, sys1) = run_automation_async clk1 p1 l1 c1 a1 mn1 mx1 rt1 sys;
        (id2, sys2) = run_automation_async clk2 p2 l2 c2 a2 mn2 mx2 rt2 sys1;
        st1 = AutomationState id1 p1 l1 c1 a1 mn1 mx1 rt1 (state_start clk1) (state_updated clk1);
        st2 = AutomationState id2 p2 l2 c2 a2 mn2 mx2 rt2 (state_start clk2) (state_updated clk2)
    in id1 = ''automation_'' @ str_int (unix_seconds clk1) \<and>
       id2 = id1 \<and>
       automation_states sys1 id1 = Some st1 \<and>
       automation_states sys2 id1 = Some st2 \<and>
       task_status sys2 id1 =
         Some \<lparr>ttype = ''automation'', status = Running, progress = 0,
               total = int (length (paired_tasks st2)), current = 0,
               task_start_time = status_start clk2, strategy = ''standard'',
               actions_enabled = a2\<rparr> \<and>
       dom (task_status sys2) = dom (task_status sys1) \<and>
       dom (automation_states sys2) = dom (automation_states sys1) \<and>
       save_state o2 st2 (save_state o1 st1 fs) = save_state o2 st2 fs \<and>
       save_state o1 st1 fs (state_file id1) = Some (Json (to_state_data o1 st1)) \<and>
       save_state o2 st2 (save_state o1 st1 fs) (state_file id1) =
         Some (Json (to_state_data o2 st2)))"
    unfolding run_automation_async_eq Let_def prod.case same
    by (auto simp: new_task_id_def AutomationState_def save_state_def)
qed

theorem same_second_same_job_id_witness:
  "fst (run_automation_async
          \<lparr>unix_seconds = 100, state_start = ''s1'', state_updated = ''u1'', status_start = ''r1''\<rparr>
          ''p'' [''a''] [''x''] [(''like'', True)] 5 15 3 initial_system) = ''automation_100'' \<and>
   fst (run_automation_async
          \<lparr>unix_seconds = 100, state_start = ''s2'', state_updated = ''u2'', status_start = ''r2''\<rparr>
          ''q'' [''b'', ''c''] [''y'', ''z''] [(''reply'', True)] 1 2 1
          (snd (run_automation_async
             \<lparr>unix_seconds = 100, state_start = ''s1'', state_updated = ''u1'', status_start = ''r1''\<rparr>
             ''p'' [''a''] [''x''] [(''like'', True)] 5 15 3 initial_system))) = ''automation_100'' \<and>
   map_option profile_name (automation_states
     (snd (run_automation_async
          \<lparr>unix_seconds = 100, state_start = ''s2'', state_updated = ''u2'', status_start = ''r2''\<rparr>
          ''q'' [''b'', ''c''] [''y'', ''z''] [(''reply'', True)] 1 2 1
          (snd (run_automation_async
             \<lparr>unix_seconds = 100, state_start = ''s1'', state_updated = ''u1'', status_start = ''r1''\<rparr>
             ''p'' [''a''] [''x''] [(''like'', True)] 5 15 3 initial_system)))) ''automation_100'') = Some ''q'' \<and>
   map_option task_start_time (task_status
     (snd (run_automation_async
          \<lparr>unix_seconds = 100, state_start = ''s2'', state_updated = ''u2'', status_start = ''r2''\<rparr>
          ''q'' [''b'', ''c''] [''y'', ''z''] [(''reply'', True)] 1 2 1
          (snd (run_automation_async
             \<lparr>unix_seconds = 100, state_start = ''s1'', state_updated = ''u1'', status_start = ''r1''\<rparr>
             ''p'' [''a''] [''x''] [(''like'', True)] 5 15 3 initial_system)))) ''automation_100'') = Some ''r2'' \<and>
   save_state list_as_rebuilt
     (AutomationState ''automation_100'' ''q'' [''b'', ''c''] [''y'', ''z''] [(''reply'', True)] 1 2 1 ''s2'' ''u2'')
     (save_state list_as_rebuilt
        (AutomationState ''automation_100'' ''p'' [''a''] [''x''] [(''like'', True)] 5 15 3 ''s1'' ''u1'')
        Map.empty) (state_file ''automation_100'') =
     Some (Json (to_state_data list_as_rebuilt
       (AutomationState ''automation_100'' ''q'' [''b'', ''c''] [''y'', ''z''] [(''reply'', True)] 1 2 1 ''s2'' ''u2'')))"
  using same_second_same_job_id
    [of "\<lparr>unix_seconds = 100, state_start = ''s1'', state_updated = ''u1'', status_start = ''r1''\<rparr>"
        "\<lparr>unix_seconds = 100, state_start = ''s2'', state_updated = ''u2'', status_start = ''r2''\<rparr>"
        "''p''" "[''a'']" "[''x'']" "[(''like'', True)]" 5 15 3 initial_system
        "''q''" "[''b'', ''c'']" "[''y'', ''z'']" "[(''reply'', True)]" 1 2 1
        list_as_rebuilt list_as_rebuilt Map.empty]
  by (simp add: run_automation_async_eq new_task_id_100 AutomationState_def save_state_def)

text \<open>
  C8, as stated, fails for \<open>min_wait > max_wait\<close>: \<open>start_automation\<close> does not compare the
  two values. A request with \<open>min_wait = 10\<close> and \<open>max_wait = 5\<close> that is valid otherwise
  is answered with the new task id, and the state, the task record and the worker thread
  exist afterwards.
\<close>

theorem start_automation_min_above_max_counterexample:
  "fst (start_automation
          \<lparr>unix_seconds = 100, state_start = ''s'', state_updated = ''u'', status_start = ''r''\<rparr>
          \<lparr>req_profile_name = Some ''p'', req_tweet_links = Some [''a''],
           req_reply_comments = Some [''x''], req_actions = Some [(''like'', True)],
           req_min_wait = Some 10, req_max_wait = Some 5, req_max_retries = None\<rparr>
          initial_system) = Started ''automation_100'' \<and>
   map_option min_wait (automation_states (snd (start_automation
          \<lparr>unix_seconds = 100, state_start = ''s'', state_updated = ''u'', status_start = ''r''\<rparr>
          \<lparr>req_profile_name = Some ''p'', req_tweet_links = Some [''a''],
           req_reply_comments = Some [''x''], req_actions = Some [(''like'', True)],
           req_min_wait = Some 10, req_max_wait = Some 5, req_max_retries = None\<rparr>
          initial_system)) ''automation_100'') = Some 10 \<and>
   map_option max_wait (automation_states (snd (start_automation
          \<lparr>unix_seconds = 100, state_start = ''s'', state_updated = ''u'', status_start = ''r''\<rparr>
          \<lparr>req_profile_name = Some ''p'', req_tweet_links = Some [''a''],
           req_reply_comments = Some [''x''], req_actions = Some [(''like'', True)],
           req_min_wait = Some 10, req_max_wait = Some 5, req_max_retries = None\<rparr>
          initial_system)) ''automation_100'') = Some 5 \<and>
   status_is (snd (start_automation
          \<lparr>unix_seconds = 100, state_start = ''s'', state_updated = ''u'', status_start = ''r''\<rparr>
          \<lparr>req_profile_name = Some ''p'', req_tweet_links = Some [''a''],
           req_reply_comments = Some [''x''], req_actions = Some [(''like'', True)],
           req_min_wait = Some 10, req_max_wait = Some 5, req_max_retries = None\<rparr>
          initial_system)) ''automation_100'' Running \<and>
   ''automation_100'' \<in> active_threads (snd (start_automation
          \<lparr>unix_seconds = 100, state_start = ''s'', state_updated = ''u'', status_start = ''r''\<rparr>
          \<lparr>req_profile_name = Some ''p'', req_tweet_links = Some [''a''],
           req_reply_comments = Some [''x''], req_actions = Some [(''like'', True)],
           req_min_wait = Some 10, req_max_wait = Some 5, req_max_retries = None\<rparr>
          initial_system))"
  by (simp add: start_automation_def Let_def run_automation_async_eq new_task_id_100
      AutomationState_def status_is_def initial_system_def)

text \<open>
  C8, amended. A request with no profile name, with an empty list of targets or with no
  enabled action is answered with a 400 error and nothing is created: the system is
  unchanged. Every other request starts a job, whatever \<open>min_wait\<close> and \<open>max_wait\<close> are;
  the two values are stored in the job as given (or as the defaults 5 and 15).
\<close>

theorem start_automation_validation:
  "(get_or (req_profile_name data) [] = [] \<or> get_or (req_tweet_links data) [] = [] \<or>
    \<not> list_ex snd (get_or (req_actions data) []) \<longrightarrow>
      (\<exists>msg. start_automation clk data sys = (Failure 400 msg, sys))) \<and>
   (get_or (req_profile_name data) [] \<noteq> [] \<and> get_or (req_tweet_links data) [] \<noteq> [] \<and>
    list_ex snd (get_or (req_actions data) []) \<longrightarrow>
      start_automation clk data sys =
        (Started (new_task_id clk),
         snd (run_automation_async clk (get_or (req_profile_name data) [])
                (get_or (req_tweet_links data) []) (get_or (req_reply_comments data) [])
                (get_or (req_actions data) []) (get_or (req_min_wait data) 5)
                (get_or (req_max_wait data) 15) (get_or (req_max_retries data) 3) sys)) \<and>
      map_option min_wait (automation_states (snd (start_automation clk data sys)) (new_task_id clk)) =
        Some (get_or (req_min_wait data) 5) \<and>
      map_option max_wait (automation_states (snd (start_automation clk data sys)) (new_task_id clk)) =
        Some (get_or (req_max_wait data) 15))"
  by (auto simp: start_automation_def Let_def run_automation_async_eq AutomationState_def)

theorem start_automation_validation_witness:
  "start_automation
     \<lparr>unix_seconds = 100, state_start = ''s'', state_updated = ''u'', status_start = ''r''\<rparr>
     \<lparr>req_profile_name = Some ''p'', req_tweet_links = Some [],
      req_reply_comments = Some [''x''], req_actions = Some [(''like'', True)],
      req_min_wait = Some 5, req_max_wait = Some 15, req_max_retries = None\<rparr>
     initial_system = (Failure 400 ''Tweet links are required'', initial_system) \<and>
   start_automation
     \<lparr>unix_seconds = 100, state_start = ''s'', state_updated = ''u'', status_start = ''r''\<rparr>
     \<lparr>req_profile_name = Some ''p'', req_tweet_links = Some [''a''],
      req_reply_comments = Some [''x''], req_actions = Some [(''like'', False), (''reply'', False)],
      req_min_wait = Some 5, req_max_wait = Some 15, req_max_retries = None\<rparr>
     initial_system = (Failure 400 ''At least one action must be selected'', initial_system) \<and>
   fst (start_automation
     \<lparr>unix_seconds = 100, state_start = ''s'', state_updated = ''u'', status_start = ''r''\<rparr>
     \<lparr>req_profile_name = Some ''p'', req_tweet_links = Some [''a''],
      req_reply_comments = Some [''x''], req_actions = Some [(''like'', True)],
      req_min_wait = Some 5, req_max_wait = Some 15, req_max_retries = None\<rparr>
     initial_system) = Started ''automation_100''"
  using start_automation_validation
    [of "\<lparr>req_profile_name = Some ''p'', req_tweet_links = Some [],
      req_reply_comments = Some [''x''], req_actions = Some [(''like'', True)],
      req_min_wait = Some 5, req_max_wait = Some 15, req_max_retries = None\<rparr>"
     "\<lparr>unix_seconds = 100, state_start = ''s'', state_updated = ''u'', status_start = ''r''\<rparr>"
     initial_system]
    start_automation_validation
    [of "\<lparr>req_profile_name = Some ''p'', req_tweet_links = Some [''a''],
      req_reply_comments = Some [''x''], req_actions = Some [(''like'', False), (''reply'', False)],
      req_min_wait = Some 5, req_max_wait = Some 15, req_max_retries = None\<rparr>"
     "\<lparr>unix_seconds = 100, state_start = ''s'', state_updated = ''u'', status_start = ''r''\<rparr>"
     initial_system]
    start_automation_validation
    [of "\<lparr>req_profile_name = Some ''p'', req_tweet_links = Some [''a''],
      req_reply_comments = Some [''x''], req_actions = Some [(''like'', True)],
      req_min_wait = Some 5, req_max_wait = Some 15, req_max_retries = None\<rparr>"
     "\<lparr>unix_seconds = 100, state_start = ''s'', state_updated = ''u'', status_start = ''r''\<rparr>"
     initial_system]
  by (simp add: start_automation_def Let_def run_automation_async_eq new_task_id_100)

section \<open>Recovery\<close>

lemma load_state_None_iff:
  "load_state tid fs now0 now1 = None \<longleftrightarrow> (\<nexists>d. fs (state_file tid) = Some (Json d))"
  by (auto simp: load_state_def Let_def split: option.splits file_content.splits)

lemma load_state_Json:
  assumes "fs (state_file tid) = Some (Json d)"
  shows "\<exists>state. load_state tid fs now0 now1 = Some state \<and>
     task_id state = sd_task_id d \<and> profile_name state = sd_profile_name d \<and>
     actions state = sd_actions d \<and> min_wait state = sd_min_wait d \<and>
     max_wait state = sd_max_wait d \<and> max_retries state = sd_max_retries d \<and>
     paired_tasks state = sd_paired_tasks d \<and>
     processed_tasks state = set (sd_processed_tasks d)"
  using assms by (simp add: load_state_def Let_def AutomationState_def)

lemma remaining_split:
  "map (\<lambda>(i, task). f task) (filter (\<lambda>(i, task). int i \<notin> P) (enumerate n xs)) =
   map f (map snd (filter (\<lambda>(i, task). int i \<notin> P) (enumerate n xs)))"
  by (simp add: case_prod_beta comp_def)

lemma create_paired_tasks_stored:
  assumes "\<forall>t \<in> set ts. strip (tweet_url t) = tweet_url t \<and> tweet_url t \<noteq> [] \<and>
             strip (comment t) = comment t"
  shows "create_paired_tasks (map tweet_url ts) (map comment ts) =
     map (\<lambda>i. \<lparr>index = int i, tweet_url = tweet_url (ts ! i), comment = comment (ts ! i),
                original_tweet_index = int i, original_comment_index = int i\<rparr>) [0..<length ts]"
proof -
  have keep: "filter (\<lambda>i. strip (tweet_at (map tweet_url ts) i) \<noteq> []) [0..<length ts] = [0..<length ts]"
    using assms by (auto simp: tweet_at_def filter_id_conv)
  have "map (paired_at (map tweet_url ts) (map comment ts)) [0..<length ts] =
     map (\<lambda>i. \<lparr>index = int i, tweet_url = tweet_url (ts ! i), comment = comment (ts ! i),
                original_tweet_index = int i, original_comment_index = int i\<rparr>) [0..<length ts]"
    using assms by (auto simp: paired_at_def tweet_at_def comment_at_def)
  with keep show ?thesis
    by (simp add: create_paired_tasks_def)
qed

lemma create_paired_tasks_stored_pairs:
  assumes "\<forall>t \<in> set ts. strip (tweet_url t) = tweet_url t \<and> tweet_url t \<noteq> [] \<and>
             strip (comment t) = comment t"
  shows "map (\<lambda>t. (tweet_url t, comment t)) (create_paired_tasks (map tweet_url ts) (map comment ts)) =
           map (\<lambda>t. (tweet_url t, comment t)) ts"
    and "map index (create_paired_tasks (map tweet_url ts) (map comment ts)) = map int [0..<length ts]"
  unfolding create_paired_tasks_stored [OF assms]
  by (simp_all add: comp_def) (rule nth_equalityI, simp_all)

lemma recover_automation_loaded:
  assumes "load_state tid (state_files sys) now0 now1 = Some state"
  shows "recover_automation clk now0 now1 tid sys =
     (if status_is sys tid Running then (Failure 400 ''Task is already running'', sys)
      else if get_remaining_tasks state = [] then (Failure 400 ''No remaining tweets to process'', sys)
      else (Recovered (new_task_id clk) (length (get_remaining_tasks state)),
            (snd (run_automation_async clk (profile_name state)
                    (map tweet_url (get_remaining_tasks state))
                    (map comment (get_remaining_tasks state))
                    (actions state) (min_wait state) (max_wait state) (max_retries state) sys))
              \<lparr>state_files := cleanup state (state_files sys)\<rparr>))"
  using assms
  by (simp add: recover_automation_def Let_def remaining_split get_remaining_tasks_def
      run_automation_async_eq)

lemma recover_automation_missing:
  assumes "load_state tid (state_files sys) now0 now1 = None"
  shows "recover_automation clk now0 now1 tid sys =
     (Failure 404 ''No saved state found for recovery'', sys)"
  using assms by (simp add: recover_automation_def)

lemma remaining_by_index_subset: "set (remaining_by_index P xs) \<subseteq> set xs"
  by (auto simp: remaining_by_index_def)

text \<open>
  The error answers of \<open>recover_automation\<close>, for every system: 404 exactly when
  \<open>load_state\<close> finds no readable state file; "already running" exactly when it finds one
  and the task record has status \<open>running\<close>; "no remaining tweets" exactly when it finds
  one, the status is not \<open>running\<close> and every list position of the stored tasks is in
  \<open>processed_tasks\<close>; and every error answer leaves the system as it was.
\<close>

lemma recover_automation_error_cases:
  "(fst (recover_automation clk now0 now1 tid sys) =
      Failure 404 ''No saved state found for recovery'' \<longleftrightarrow>
    (\<nexists>d. state_files sys (state_file tid) = Some (Json d))) \<and>
   (fst (recover_automation clk now0 now1 tid sys) =
      Failure 400 ''Task is already running'' \<longleftrightarrow>
    (\<exists>d. state_files sys (state_file tid) = Some (Json d)) \<and> status_is sys tid Running) \<and>
   (fst (recover_automation clk now0 now1 tid sys) =
      Failure 400 ''No remaining tweets to process'' \<longleftrightarrow>
    (\<exists>state. load_state tid (state_files sys) now0 now1 = Some state \<and>
       \<not> status_is sys tid Running \<and> get_remaining_tasks state = [])) \<and>
   (\<forall>code msg. fst (recover_automation clk now0 now1 tid sys) = Failure code msg \<longrightarrow>
      snd (recover_automation clk now0 now1 tid sys) = sys)"
proof (cases "load_state tid (state_files sys) now0 now1")
  case None
  then have "\<nexists>d. state_files sys (state_file tid) = Some (Json d)"
    by (simp add: load_state_None_iff)
  with recover_automation_missing [OF None] None show ?thesis
    by simp
next
  case (Some state)
  then have "\<exists>d. state_files sys (state_file tid) = Some (Json d)"
    using load_state_None_iff [of tid "state_files sys" now0 now1] by auto
  with recover_automation_loaded [OF Some] Some show ?thesis
    by auto
qed

text \<open>
  What recovery does for a snapshot without an index gap. Take a snapshot stored under
  its own id whose tasks carry their list positions as indices and hold trimmed,
  non-empty targets and trimmed annotations (as \<open>_create_paired_tasks\<close> writes them), with
  the job not running and at least one index not processed. Then \<open>recover_automation\<close>
  succeeds with the id \<open>automation_<second>\<close> and the number of remaining tasks; the state
  registered under that id has, in the same order, exactly the target/annotation pairs
  of the unprocessed stored tasks, numbered from 0 by the builder, three empty index
  sets, and the profile, actions, waits and retry limit of the snapshot; its task record
  is \<open>running\<close> and its worker is registered; and the only change to the files is that
  the old snapshot is deleted.
\<close>

lemma recover_automation_no_gap:
  assumes stored: "state_files sys (state_file tid) = Some (Json d)"
    and own: "sd_task_id d = tid"
    and idle: "\<not> status_is sys tid Running"
    and nogap: "\<forall>i < length (sd_paired_tasks d). index (sd_paired_tasks d ! i) = int i"
    and trimmed: "\<forall>t \<in> set (sd_paired_tasks d).
        strip (tweet_url t) = tweet_url t \<and> tweet_url t \<noteq> [] \<and> strip (comment t) = comment t"
    and some: "remaining_by_index (set (sd_processed_tasks d)) (sd_paired_tasks d) \<noteq> []"
  shows "\<exists>sys' new.
     recover_automation clk now0 now1 tid sys =
       (Recovered (new_task_id clk)
          (length (remaining_by_index (set (sd_processed_tasks d)) (sd_paired_tasks d))), sys') \<and>
     automation_states sys' (new_task_id clk) = Some new \<and>
     map (\<lambda>t. (tweet_url t, comment t)) (paired_tasks new) =
       map (\<lambda>t. (tweet_url t, comment t))
         (remaining_by_index (set (sd_processed_tasks d)) (sd_paired_tasks d)) \<and>
     map index (paired_tasks new) =
       map int [0..<length (remaining_by_index (set (sd_processed_tasks d)) (sd_paired_tasks d))] \<and>
     processed_tasks new = {} \<and> successful_tasks new = {} \<and> failed_tasks new = {} \<and>
     profile_name new = sd_profile_name d \<and> actions new = sd_actions d \<and>
     min_wait new = sd_min_wait d \<and> max_wait new = sd_max_wait d \<and>
     max_retries new = sd_max_retries d \<and>
     status_is sys' (new_task_id clk) Running \<and>
     new_task_id clk \<in> active_threads sys' \<and>
     state_files sys' = (state_files sys)(state_file tid := None)"
proof -
  let ?rem = "remaining_by_index (set (sd_processed_tasks d)) (sd_paired_tasks d)"
  from load_state_Json [of "state_files sys" tid d now0 now1, OF stored] obtain state
    where loaded: "load_state tid (state_files sys) now0 now1 = Some state"
      and fields: "task_id state = sd_task_id d" "profile_name state = sd_profile_name d"
        "actions state = sd_actions d" "min_wait state = sd_min_wait d"
        "max_wait state = sd_max_wait d" "max_retries state = sd_max_retries d"
      and tasks: "paired_tasks state = sd_paired_tasks d"
      and processed: "processed_tasks state = set (sd_processed_tasks d)"
    by blast
  from nogap tasks have "\<forall>i < length (paired_tasks state). index (paired_tasks state ! i) = int i"
    by simp
  from get_remaining_tasks_no_gap [OF this]
  have rem: "get_remaining_tasks state = ?rem"
    by (simp add: tasks processed)
  from trimmed remaining_by_index_subset [of "set (sd_processed_tasks d)" "sd_paired_tasks d"]
  have "\<forall>t \<in> set ?rem.
        strip (tweet_url t) = tweet_url t \<and> tweet_url t \<noteq> [] \<and> strip (comment t) = comment t"
    by blast
  note built = create_paired_tasks_stored_pairs [OF this]
  let ?new = "AutomationState (new_task_id clk) (sd_profile_name d) (map tweet_url ?rem)
      (map comment ?rem) (sd_actions d) (sd_min_wait d) (sd_max_wait d) (sd_max_retries d)
      (state_start clk) (state_updated clk)"
  let ?sys' = "(snd (run_automation_async clk (sd_profile_name d) (map tweet_url ?rem)
      (map comment ?rem) (sd_actions d) (sd_min_wait d) (sd_max_wait d) (sd_max_retries d) sys))
      \<lparr>state_files := cleanup state (state_files sys)\<rparr>"
  have result: "recover_automation clk now0 now1 tid sys =
      (Recovered (new_task_id clk) (length ?rem), ?sys')"
    unfolding recover_automation_loaded [OF loaded] rem fields using idle some by simp
  have registered: "automation_states ?sys' (new_task_id clk) = Some ?new"
    by (simp add: run_automation_async_eq)
  have running: "status_is ?sys' (new_task_id clk) Running"
    by (simp add: run_automation_async_eq status_is_def)
  have thread: "new_task_id clk \<in> active_threads ?sys'"
    by (simp add: run_automation_async_eq)
  have deleted: "state_files ?sys' = (state_files sys)(state_file tid := None)"
    by (simp add: run_automation_async_eq cleanup_def fields own)
  have new_fields: "paired_tasks ?new = create_paired_tasks (map tweet_url ?rem) (map comment ?rem)"
    "processed_tasks ?new = {}" "successful_tasks ?new = {}" "failed_tasks ?new = {}"
    "profile_name ?new = sd_profile_name d"
    "actions ?new = sd_actions d" "min_wait ?new = sd_min_wait d"
    "max_wait ?new = sd_max_wait d" "max_retries ?new = sd_max_retries d"
    by (simp_all add: AutomationState_def)
  show ?thesis
    using result registered running thread deleted built new_fields
    by (intro exI [of _ ?sys'] exI [of _ ?new]) simp
qed

text \<open>
  C5 at a snapshot with an index gap. The targets \<open>["", "b", "c"]\<close> give the tasks with
  indices 1 and 2; the worker has processed both, so \<open>processed_tasks\<close> is \<open>{1, 2}\<close>, no
  task is left, and the task record says \<open>completed\<close>. \<open>recover_automation\<close> tests the list
  positions 0 and 1: position 0 is not in \<open>{1, 2}\<close>, so instead of answering "no remaining
  tweets" it starts a new job that processes \<open>b\<close> again, and it deletes the snapshot.
\<close>

theorem recover_automation_gap_all_processed_example:
  "processed_tasks
     (mark_all (AutomationState ''job'' ''p'' ['''', ''b'', ''c''] [''x'', ''y'', ''z''] [(''like'', True)] 5 15 3 ''t0'' ''t0'')
        [(1, True, ''t1''), (2, True, ''t2'')]) = {1, 2} \<and>
   remaining_by_index {1, 2} (paired_tasks
     (mark_all (AutomationState ''job'' ''p'' ['''', ''b'', ''c''] [''x'', ''y'', ''z''] [(''like'', True)] 5 15 3 ''t0'' ''t0'')
        [(1, True, ''t1''), (2, True, ''t2'')])) = [] \<and>
   fst (recover_automation
      \<lparr>unix_seconds = 100, state_start = ''s'', state_updated = ''u'', status_start = ''r''\<rparr>
      ''n0'' ''n1'' ''job''
      (add_task_status ''job''
         \<lparr>ttype = ''automation'', status = Completed, progress = 100, total = 2, current = 2,
          task_start_time = ''t0'', strategy = ''standard'', actions_enabled = [(''like'', True)]\<rparr>
         (initial_system\<lparr>state_files := save_state list_as_rebuilt
           (mark_all (AutomationState ''job'' ''p'' ['''', ''b'', ''c''] [''x'', ''y'', ''z''] [(''like'', True)] 5 15 3 ''t0'' ''t0'')
              [(1, True, ''t1''), (2, True, ''t2'')]) Map.empty\<rparr>))) =
     Recovered ''automation_100'' 1 \<and>
   map_option (\<lambda>s. map (\<lambda>t. (tweet_url t, comment t)) (paired_tasks s))
     (automation_states (snd (recover_automation
      \<lparr>unix_seconds = 100, state_start = ''s'', state_updated = ''u'', status_start = ''r''\<rparr>
      ''n0'' ''n1'' ''job''
      (add_task_status ''job''
         \<lparr>ttype = ''automation'', status = Completed, progress = 100, total = 2, current = 2,
          task_start_time = ''t0'', strategy = ''standard'', actions_enabled = [(''like'', True)]\<rparr>
         (initial_system\<lparr>state_files := save_state list_as_rebuilt
           (mark_all (AutomationState ''job'' ''p'' ['''', ''b'', ''c''] [''x'', ''y'', ''z''] [(''like'', True)] 5 15 3 ''t0'' ''t0'')
              [(1, True, ''t1''), (2, True, ''t2'')]) Map.empty\<rparr>)))) ''automation_100'') =
     Some [(''b'', ''y'')] \<and>
   state_files (snd (recover_automation
      \<lparr>unix_seconds = 100, state_start = ''s'', state_updated = ''u'', status_start = ''r''\<rparr>
      ''n0'' ''n1'' ''job''
      (add_task_status ''job''
         \<lparr>ttype = ''automation'', status = Completed, progress = 100, total = 2, current = 2,
          task_start_time = ''t0'', strategy = ''standard'', actions_enabled = [(''like'', True)]\<rparr>
         (initial_system\<lparr>state_files := save_state list_as_rebuilt
           (mark_all (AutomationState ''job'' ''p'' ['''', ''b'', ''c''] [''x'', ''y'', ''z''] [(''like'', True)] 5 15 3 ''t0'' ''t0'')
              [(1, True, ''t1''), (2, True, ''t2'')]) Map.empty\<rparr>)))) (state_file ''job'') = None"
  by code_simp

text \<open>
  C3 at a snapshot with an index gap. The targets \<open>["", "b", "c"]\<close> give the tasks
  \<open>(1, b, y)\<close> and \<open>(2, c, z)\<close>; the worker has processed \<open>b\<close> and marked its index 1, so
  the remainder is the task \<open>(2, c, z)\<close>. \<open>recover_automation\<close> tests the list positions:
  position 0 (the task \<open>b\<close>) is not in \<open>{1}\<close> and position 1 (the task \<open>c\<close>) is. The new
  job holds the processed pair \<open>(b, y)\<close> and not the unprocessed pair \<open>(c, z)\<close>, and the
  old snapshot, the only record of \<open>c\<close>, is deleted.
\<close>

theorem recover_automation_gap_example:
  "processed_tasks
     (mark_all (AutomationState ''job'' ''p'' ['''', ''b'', ''c''] [''x'', ''y'', ''z''] [(''like'', True)] 5 15 3 ''t0'' ''t0'')
        [(1, True, ''t1'')]) = {1} \<and>
   map (\<lambda>t. (index t, tweet_url t, comment t)) (remaining_by_index {1} (paired_tasks
     (mark_all (AutomationState ''job'' ''p'' ['''', ''b'', ''c''] [''x'', ''y'', ''z''] [(''like'', True)] 5 15 3 ''t0'' ''t0'')
        [(1, True, ''t1'')]))) = [(2, ''c'', ''z'')] \<and>
   fst (recover_automation
      \<lparr>unix_seconds = 100, state_start = ''s'', state_updated = ''u'', status_start = ''r''\<rparr>
      ''n0'' ''n1'' ''job''
      (add_task_status ''job''
         \<lparr>ttype = ''automation'', status = Completed, progress = 50, total = 2, current = 1,
          task_start_time = ''t0'', strategy = ''standard'', actions_enabled = [(''like'', True)]\<rparr>
         (initial_system\<lparr>state_files := save_state list_as_rebuilt
           (mark_all (AutomationState ''job'' ''p'' ['''', ''b'', ''c''] [''x'', ''y'', ''z''] [(''like'', True)] 5 15 3 ''t0'' ''t0'')
              [(1, True, ''t1'')]) Map.empty\<rparr>))) =
     Recovered ''automation_100'' 1 \<and>
   map_option (\<lambda>s. map (\<lambda>t. (index t, tweet_url t, comment t)) (paired_tasks s))
     (automation_states (snd (recover_automation
      \<lparr>unix_seconds = 100, state_start = ''s'', state_updated = ''u'', status_start = ''r''\<rparr>
      ''n0'' ''n1'' ''job''
      (add_task_status ''job''
         \<lparr>ttype = ''automation'', status = Completed, progress = 50, total = 2, current = 1,
          task_start_time = ''t0'', strategy = ''standard'', actions_enabled = [(''like'', True)]\<rparr>
         (initial_system\<lparr>state_files := save_state list_as_rebuilt
           (mark_all (AutomationState ''job'' ''p'' ['''', ''b'', ''c''] [''x'', ''y'', ''z''] [(''like'', True)] 5 15 3 ''t0'' ''t0'')
              [(1, True, ''t1'')]) Map.empty\<rparr>)))) ''automation_100'') =
     Some [(0, ''b'', ''y'')] \<and>
   state_files (snd (recover_automation
      \<lparr>unix_seconds = 100, state_start = ''s'', state_updated = ''u'', status_start = ''r''\<rparr>
      ''n0'' ''n1'' ''job''
      (add_task_status ''job''
         \<lparr>ttype = ''automation'', status = Completed, progress = 50, total = 2, current = 1,
          task_start_time = ''t0'', strategy = ''standard'', actions_enabled = [(''like'', True)]\<rparr>
         (initial_system\<lparr>state_files := save_state list_as_rebuilt
           (mark_all (AutomationState ''job'' ''p'' ['''', ''b'', ''c''] [''x'', ''y'', ''z''] [(''like'', True)] 5 15 3 ''t0'' ''t0'')
              [(1, True, ''t1'')]) Map.empty\<rparr>)))) (state_file ''job'') = None"
  by code_simp

section \<open>The worker\<close>

lemma update_task_status_dom: "dom (task_status (update_task_status tid f sys)) = dom (task_status sys)"
  by (auto simp: update_task_status_def split: option.splits)

lemma update_task_status_files: "state_files (update_task_status tid f sys) = state_files sys"
  by (simp add: update_task_status_def split: option.splits)

lemma serve_cancel_dom: "dom (task_status (serve_cancel env state i sys)) = dom (task_status sys)"
  by (auto simp: serve_cancel_def cancel_task_def Let_def update_task_status_def
      split: option.splits if_splits)

lemma process_one_state:
  "snd (process_one env n i task sys state) =
     mark_task_processed (state\<lparr>current_index := int i\<rparr>) (index task)
       (process_tweet env task) (mark_time env i)"
  by (simp add: process_one_def Let_def)

lemma process_one_dom:
  "dom (task_status (fst (process_one env n i task sys state))) = dom (task_status sys)"
  by (simp add: process_one_def Let_def update_task_status_dom)

lemma process_one_inv:
  assumes "process_one env n i task sys state = (sys2, state2)"
  shows "task_id state2 = task_id state" and "min_wait state2 = min_wait state"
    and "max_wait state2 = max_wait state"
    and "dom (task_status sys2) = dom (task_status sys)"
proof -
  from assms have s: "state2 = snd (process_one env n i task sys state)"
    and t: "sys2 = fst (process_one env n i task sys state)"
    by simp_all
  show "task_id state2 = task_id state" and "min_wait state2 = min_wait state"
    and "max_wait state2 = max_wait state"
    unfolding s process_one_state by (simp_all add: mark_task_processed_def)
  show "dom (task_status sys2) = dom (task_status sys)"
    unfolding t by (rule process_one_dom)
qed

lemma process_tasks_inv:
  "process_tasks env n i tasks sys state = (ex, sys', state') \<Longrightarrow>
   task_id state' = task_id state \<and> min_wait state' = min_wait state \<and>
   max_wait state' = max_wait state \<and>
   dom (task_status sys') = dom (task_status sys) \<and>
   (ex = Raised \<longrightarrow> (\<exists>j. wait_raises env j (min_wait state) (max_wait state))) \<and>
   (ex = CancelObserved \<longrightarrow> status_is sys' (task_id state) Cancelled)"
proof (induction env n i tasks sys state rule: process_tasks.induct)
  case (1 env n i sys state)
  then show ?case by simp
next
  case (2 env n i task rest sys state)
  let ?sys0 = "serve_cancel env state i sys"
  have dom0: "dom (task_status ?sys0) = dom (task_status sys)"
    by (rule serve_cancel_dom)
  show ?case
  proof (cases "status_is ?sys0 (task_id state) Cancelled")
    case True
    with "2.prems" dom0 show ?thesis
      by (auto simp: Let_def)
  next
    case False
    obtain sys2 state2 where one: "process_one env n i task ?sys0 state = (sys2, state2)"
      by (cases "process_one env n i task ?sys0 state")
    note fixed = process_one_inv [OF one]
    show ?thesis
    proof (cases "i + 1 < n \<and> wait_raises env i (min_wait state2) (max_wait state2)")
      case True
      with False one "2.prems" have "ex = Raised" "sys' = sys2" "state' = state2"
        by (auto simp: Let_def split: if_splits)
      with True fixed dom0 show ?thesis by auto
    next
      case stay: False
      with False one "2.prems"
      have rec: "process_tasks env n (i + 1) rest sys2 state2 = (ex, sys', state')"
        by (auto simp: Let_def split: if_splits)
      from "2.IH" [OF refl False one [symmetric] stay rec] fixed dom0
      show ?thesis by simp
    qed
  qed
qed

lemma wait_in_range:
  assumes "0 \<le> mn" and "mn \<le> mx" and "mx \<le> sleep_limit env"
  shows "\<not> wait_raises env i mn mx"
proof -
  have "0 < nat (mx - mn + 1)"
    using assms(2) by simp
  then have "random_draw env i mod nat (mx - mn + 1) < nat (mx - mn + 1)"
    by (rule mod_less_divisor)
  then have "int (random_draw env i mod nat (mx - mn + 1)) \<le> mx - mn"
    by linarith
  with assms show ?thesis
    by (simp add: wait_raises_def randint_def)
qed

lemma worker_finally_status: "task_status (worker_finally tid sys) = task_status sys"
  by (simp add: worker_finally_def)

lemma worker_finally_files: "state_files (worker_finally tid sys) = state_files sys"
  by (simp add: worker_finally_def)

lemma status_is_update:
  "tid \<in> dom (task_status sys) \<Longrightarrow>
   status_is (update_task_status tid (\<lambda>t. t\<lparr>status := s\<rparr>) sys) tid s"
  by (auto simp: status_is_def update_task_status_def)

lemma automation_worker_after_loop:
  assumes "setup_driver env"
    and "process_tasks env (length (shuffle env (get_remaining_tasks state))) 0
           (shuffle env (get_remaining_tasks state)) sys state = (ex, sys1, state1)"
    and "ex \<noteq> Raised"
  shows "automation_worker env state sys =
     (worker_finally (task_id state)
        (update_task_status (task_id state) (\<lambda>t. t\<lparr>status := Completed\<rparr>)
           (sys1\<lparr>state_files := save_state (list_of env) state1 (state_files sys1)\<rparr>)),
      state1)"
  using assms by (cases ex) (simp_all add: automation_worker_def Let_def)

text \<open>
  C7, as stated, fails: the code after the loop does not distinguish how the loop ended.
  A job with one task is started and cancelled before the first status check; the loop
  observes \<open>cancelled\<close> and breaks, and the worker then sets the status to \<open>completed\<close>.
\<close>

theorem automation_worker_cancel_counterexample:
  "fst (process_tasks (scripted_env [0]) 1 0
     (shuffle (scripted_env [0])
        (get_remaining_tasks (AutomationState ''automation_100'' ''p'' [''a''] [''x''] [(''like'', True)] 5 15 3 ''s'' ''u'')))
     (snd (run_automation_async
        \<lparr>unix_seconds = 100, state_start = ''s'', state_updated = ''u'', status_start = ''r''\<rparr>
        ''p'' [''a''] [''x''] [(''like'', True)] 5 15 3 initial_system))
     (AutomationState ''automation_100'' ''p'' [''a''] [''x''] [(''like'', True)] 5 15 3 ''s'' ''u'')) = CancelObserved \<and>
   status_is (fst (automation_worker (scripted_env [0])
     (AutomationState ''automation_100'' ''p'' [''a''] [''x''] [(''like'', True)] 5 15 3 ''s'' ''u'')
     (snd (run_automation_async
        \<lparr>unix_seconds = 100, state_start = ''s'', state_updated = ''u'', status_start = ''r''\<rparr>
        ''p'' [''a''] [''x''] [(''like'', True)] 5 15 3 initial_system)))) ''automation_100'' Completed \<and>
   \<not> status_is (fst (automation_worker (scripted_env [0])
     (AutomationState ''automation_100'' ''p'' [''a''] [''x''] [(''like'', True)] 5 15 3 ''s'' ''u'')
     (snd (run_automation_async
        \<lparr>unix_seconds = 100, state_start = ''s'', state_updated = ''u'', status_start = ''r''\<rparr>
        ''p'' [''a''] [''x''] [(''like'', True)] 5 15 3 initial_system)))) ''automation_100'' Cancelled"
  by code_simp

text \<open>
  C7, amended. For every run of the worker in which the driver starts, the task record
  exists and the waits cannot raise (\<open>0 \<le> min_wait \<le> max_wait\<close>, and \<open>max_wait\<close> is not
  more than \<open>time.sleep\<close> accepts): the loop ends either because the remaining tasks are
  exhausted or because the status check saw \<open>cancelled\<close>; in both cases the state as the
  loop left it is saved once more, and afterwards the status of the task record is
  \<open>completed\<close> (after an observed cancellation this replaces \<open>cancelled\<close>).
\<close>

theorem automation_worker_completes:
  assumes driver: "setup_driver env"
    and known: "task_id state \<in> dom (task_status sys)"
    and waits: "0 \<le> min_wait state" "min_wait state \<le> max_wait state"
      "max_wait state \<le> sleep_limit env"
  shows "status_is (fst (automation_worker env state sys)) (task_id state) Completed \<and>
     state_files (fst (automation_worker env state sys)) (state_file (task_id state)) =
       Some (Json (to_state_data (list_of env) (snd (automation_worker env state sys)))) \<and>
     snd (automation_worker env state sys) =
       snd (snd (process_tasks env (length (shuffle env (get_remaining_tasks state))) 0
                  (shuffle env (get_remaining_tasks state)) sys state)) \<and>
     (fst (process_tasks env (length (shuffle env (get_remaining_tasks state))) 0
            (shuffle env (get_remaining_tasks state)) sys state) = Exhausted \<or>
      fst (process_tasks env (length (shuffle env (get_remaining_tasks state))) 0
            (shuffle env (get_remaining_tasks state)) sys state) = CancelObserved \<and>
      status_is (fst (snd (process_tasks env (length (shuffle env (get_remaining_tasks state))) 0
            (shuffle env (get_remaining_tasks state)) sys state))) (task_id state) Cancelled)"
proof -
  let ?rem = "shuffle env (get_remaining_tasks state)"
  obtain ex sys1 state1 where
    loop: "process_tasks env (length ?rem) 0 ?rem sys state = (ex, sys1, state1)"
    by (cases "process_tasks env (length ?rem) 0 ?rem sys state")
  note inv = process_tasks_inv [OF loop]
  from inv wait_in_range [OF waits] have no_raise: "ex \<noteq> Raised" by blast
  from inv known have known1: "task_id state \<in> dom (task_status sys1)" by simp
  from inv have tid1: "task_id state1 = task_id state" by simp
  let ?saved = "sys1\<lparr>state_files := save_state (list_of env) state1 (state_files sys1)\<rparr>"
  note result = automation_worker_after_loop [OF driver loop no_raise]
  have "status_is (update_task_status (task_id state) (\<lambda>t. t\<lparr>status := Completed\<rparr>) ?saved)
          (task_id state) Completed"
    using known1 by (intro status_is_update) simp
  then have completed: "status_is (fst (automation_worker env state sys)) (task_id state) Completed"
    unfolding result by (simp add: status_is_def worker_finally_status)
  have saved: "state_files (fst (automation_worker env state sys)) (state_file (task_id state)) =
       Some (Json (to_state_data (list_of env) state1))"
    unfolding result
    by (simp add: worker_finally_files update_task_status_files save_state_def tid1)
  have exits: "ex = Exhausted \<or> ex = CancelObserved \<and> status_is sys1 (task_id state) Cancelled"
    using no_raise inv by (cases ex) simp_all
  show ?thesis
    using completed saved exits unfolding result loop by simp
qed

theorem automation_worker_completes_witness:
  "status_is (fst (automation_worker (scripted_env [])
     (AutomationState ''automation_100'' ''p'' [''a''] [''x''] [(''like'', True)] 5 15 3 ''s'' ''u'')
     (snd (run_automation_async
        \<lparr>unix_seconds = 100, state_start = ''s'', state_updated = ''u'', status_start = ''r''\<rparr>
        ''p'' [''a''] [''x''] [(''like'', True)] 5 15 3 initial_system)))) ''automation_100'' Completed \<and>
   state_files (fst (automation_worker (scripted_env [])
     (AutomationState ''automation_100'' ''p'' [''a''] [''x''] [(''like'', True)] 5 15 3 ''s'' ''u'')
     (snd (run_automation_async
        \<lparr>unix_seconds = 100, state_start = ''s'', state_updated = ''u'', status_start = ''r''\<rparr>
        ''p'' [''a''] [''x''] [(''like'', True)] 5 15 3 initial_system)))) (state_file ''automation_100'') =
     Some (Json (to_state_data list_as_rebuilt (snd (automation_worker (scripted_env [])
       (AutomationState ''automation_100'' ''p'' [''a''] [''x''] [(''like'', True)] 5 15 3 ''s'' ''u'')
       (snd (run_automation_async
          \<lparr>unix_seconds = 100, state_start = ''s'', state_updated = ''u'', status_start = ''r''\<rparr>
          ''p'' [''a''] [''x''] [(''like'', True)] 5 15 3 initial_system)))))) \<and>
   sd_processed_tasks (to_state_data list_as_rebuilt (snd (automation_worker (scripted_env [])
       (AutomationState ''automation_100'' ''p'' [''a''] [''x''] [(''like'', True)] 5 15 3 ''s'' ''u'')
       (snd (run_automation_async
          \<lparr>unix_seconds = 100, state_start = ''s'', state_updated = ''u'', status_start = ''r''\<rparr>
          ''p'' [''a''] [''x''] [(''like'', True)] 5 15 3 initial_system))))) = [0]"
proof -
  let ?ST = "AutomationState ''automation_100'' ''p'' [''a''] [''x''] [(''like'', True)] 5 15 3 ''s'' ''u''"
  let ?SYS = "snd (run_automation_async
        \<lparr>unix_seconds = 100, state_start = ''s'', state_updated = ''u'', status_start = ''r''\<rparr>
        ''p'' [''a''] [''x''] [(''like'', True)] 5 15 3 initial_system)"
  have driver: "setup_driver (scripted_env [])"
    by (simp add: scripted_env_def)
  have tid: "task_id ?ST = ''automation_100''"
    by (simp add: AutomationState_def)
  have known: "task_id ?ST \<in> dom (task_status ?SYS)"
    unfolding tid by (simp add: run_automation_async_eq new_task_id_100)
  have waits: "0 \<le> min_wait ?ST" "min_wait ?ST \<le> max_wait ?ST"
    "max_wait ?ST \<le> sleep_limit (scripted_env [])"
    by (simp_all add: AutomationState_def scripted_env_def)
  have order: "list_of (scripted_env []) = list_as_rebuilt"
    by (simp add: scripted_env_def)
  have marked: "sd_processed_tasks (to_state_data list_as_rebuilt
      (snd (automation_worker (scripted_env []) ?ST ?SYS))) = [0]"
    by code_simp
  from automation_worker_completes [OF driver known waits, unfolded tid order] marked
  show ?thesis by blast
qed

text \<open>
  A run whose wait raises: with \<open>min_wait = max_wait = -1\<close> and two tasks, \<open>time.sleep(-1)\<close>
  raises after the first task; the second task is never processed and the status is
  \<open>error\<close>.
\<close>

lemma automation_worker_negative_wait_example:
  "fst (process_tasks (scripted_env []) 2 0
     (shuffle (scripted_env [])
        (get_remaining_tasks (AutomationState ''automation_100'' ''p'' [''a'', ''b''] [''x'', ''y''] [(''like'', True)] (- 1) (- 1) 3 ''s'' ''u'')))
     (snd (run_automation_async
        \<lparr>unix_seconds = 100, state_start = ''s'', state_updated = ''u'', status_start = ''r''\<rparr>
        ''p'' [''a'', ''b''] [''x'', ''y''] [(''like'', True)] (- 1) (- 1) 3 initial_system))
     (AutomationState ''automation_100'' ''p'' [''a'', ''b''] [''x'', ''y''] [(''like'', True)] (- 1) (- 1) 3 ''s'' ''u'')) = Raised \<and>
   status_is (fst (automation_worker (scripted_env [])
     (AutomationState ''automation_100'' ''p'' [''a'', ''b''] [''x'', ''y''] [(''like'', True)] (- 1) (- 1) 3 ''s'' ''u'')
     (snd (run_automation_async
        \<lparr>unix_seconds = 100, state_start = ''s'', state_updated = ''u'', status_start = ''r''\<rparr>
        ''p'' [''a'', ''b''] [''x'', ''y''] [(''like'', True)] (- 1) (- 1) 3 initial_system)))) ''automation_100'' Error \<and>
   sd_processed_tasks (to_state_data list_as_rebuilt (snd (automation_worker (scripted_env [])
     (AutomationState ''automation_100'' ''p'' [''a'', ''b''] [''x'', ''y''] [(''like'', True)] (- 1) (- 1) 3 ''s'' ''u'')
     (snd (run_automation_async
        \<lparr>unix_seconds = 100, state_start = ''s'', state_updated = ''u'', status_start = ''r''\<rparr>
        ''p'' [''a'', ''b''] [''x'', ''y''] [(''like'', True)] (- 1) (- 1) 3 initial_system))))) = [0]"
  by code_simp

end
